theory Spec2Isabelle
  imports Complex_Main "HOL-Library.Word"
begin

section \<open>JavaScript values\<close>

text \<open>
  A JavaScript string is a sequence of 16-bit code units. String literals of the source
  are written \<open>str ''...''\<close>.
\<close>

type_synonym jsstring = "16 word list"

definition str :: "string \<Rightarrow> jsstring" where
  "str s = map of_char s"

text \<open>
  Numbers. The program never computes with a number; it only tests one for truthiness.
  A finite number is kept as a rational (both zeros are \<open>Finite 0\<close>).
\<close>

datatype jsnum = NaN | Finite rat | PosInfinity | NegInfinity

datatype errclass = PlainError | SyntaxError | TypeError | InternalOAuthError

text \<open>
  Objects are association lists of their own properties, in insertion order. An error
  object carries its class beside its own properties. \<open>JFunction\<close> stands for a
  function value, identified by a number.
\<close>

datatype jsval =
    JUndefined
  | JNull
  | JBool bool
  | JNumber jsnum
  | JString jsstring
  | JArray "jsval list"
  | JObject "(jsstring \<times> jsval) list"
  | JError errclass "(jsstring \<times> jsval) list"
  | JFunction nat

text \<open>ToBoolean: what \<open>if (x)\<close>, \<open>!x\<close>, \<open>x && y\<close>, \<open>x || y\<close> and \<open>x ? y : z\<close> test.\<close>

fun truthy :: "jsval \<Rightarrow> bool" where
  "truthy JUndefined = False"
| "truthy JNull = False"
| "truthy (JBool b) = b"
| "truthy (JNumber n) = (n \<noteq> NaN \<and> n \<noteq> Finite 0)"
| "truthy (JString s) = (s \<noteq> [])"
| "truthy (JArray xs) = True"
| "truthy (JObject kvs) = True"
| "truthy (JError c kvs) = True"
| "truthy (JFunction n) = True"

definition js_and :: "jsval \<Rightarrow> jsval \<Rightarrow> jsval" where
  "js_and a b = (if truthy a then b else a)"

definition js_or :: "jsval \<Rightarrow> jsval \<Rightarrow> jsval" where
  "js_or a b = (if truthy a then a else b)"

fun lookup :: "(jsstring \<times> jsval) list \<Rightarrow> jsstring \<Rightarrow> jsval" where
  "lookup [] k = JUndefined"
| "lookup ((k', v) # kvs) k = (if k' = k then v else lookup kvs k)"

text \<open>
  \<open>property v k\<close> is the read \<open>v.k\<close> of one of the names the source reads as
  written (\<open>id\<close>, \<open>display_name\<close>, \<open>real_name\<close>, \<open>default_email\<close>, \<open>statusCode\<close>) on
  a receiver that is neither \<open>undefined\<close> nor \<open>null\<close>. The language defines none of
  these names on a built-in prototype or on strings and arrays, so the read is a lookup
  among the own properties of the receiver.
\<close>

fun property :: "jsval \<Rightarrow> jsstring \<Rightarrow> jsval" where
  "property (JObject kvs) k = lookup kvs k"
| "property (JError c kvs) k = lookup kvs k"
| "property v k = JUndefined"

text \<open>
  A read \<open>v[k]\<close> under a name that the configuration chooses finds more than the own
  properties listed in the object: a property inherited through the prototype chain
  (\<open>constructor\<close> on every plain object), and the \<open>length\<close> and the indices of a
  string or an array. What these are depends on the runtime and on how the receiver was
  made, so they are a parameter: \<open>ch v k\<close> is what the read finds for a name \<open>k\<close> that
  is not among the listed own properties of \<open>v\<close>, and \<open>undefined\<close> when there is
  nothing.
\<close>

type_synonym chain = "jsval \<Rightarrow> jsstring \<Rightarrow> jsval"

fun own :: "jsval \<Rightarrow> jsstring \<Rightarrow> jsval option" where
  "own (JObject kvs) k = map_of kvs k"
| "own (JError c kvs) k = map_of kvs k"
| "own v k = None"

definition read :: "chain \<Rightarrow> jsval \<Rightarrow> jsstring \<Rightarrow> jsval" where
  "read ch v k = (case own v k of Some x \<Rightarrow> x | None \<Rightarrow> ch v k)"

text \<open>
  \<open>get v k\<close> is the unguarded read \<open>v.k\<close>: it throws a TypeError on \<open>undefined\<close> and
  \<open>null\<close>. A thrown value is \<open>Inl\<close>. The message text of the errors the language
  itself throws depends on the engine and is not modelled.
\<close>

definition get :: "jsval \<Rightarrow> jsstring \<Rightarrow> jsval + jsval" where
  "get v k = (if v = JUndefined \<or> v = JNull then Inl (JError TypeError []) else Inr (property v k))"

section \<open>JSON.parse\<close>

text \<open>
  \<open>JSON.parse\<close> belongs to the language, not to the repository. It is modelled here
  by a lexer and a stack parser for the JSON grammar (ECMA-404), so that the code can
  be run on concrete bodies: the four white space characters; the literals \<open>true\<close>,
  \<open>false\<close>, \<open>null\<close>; numbers; strings with their escapes; arrays and objects. A
  repeated key of an object keeps its first position and its last value.
\<close>

datatype token =
    TLBrace | TRBrace | TLBracket | TRBracket | TColon | TComma
  | TString jsstring | TNumber jsnum | TTrue | TFalse | TNull

definition is_ws :: "16 word \<Rightarrow> bool" where
  "is_ws c = (c = 0x20 \<or> c = 0x09 \<or> c = 0x0A \<or> c = 0x0D)"

definition is_digit :: "16 word \<Rightarrow> bool" where
  "is_digit c = (0x30 \<le> c \<and> c \<le> 0x39)"

definition hexval :: "16 word \<Rightarrow> 16 word option" where
  "hexval c =
     (if 0x30 \<le> c \<and> c \<le> 0x39 then Some (c - 0x30)
      else if 0x41 \<le> c \<and> c \<le> 0x46 then Some (c - 0x37)
      else if 0x61 \<le> c \<and> c \<le> 0x66 then Some (c - 0x57)
      else None)"

definition unescape :: "16 word \<Rightarrow> 16 word option" where
  "unescape c =
     (if c = 0x22 \<or> c = 0x5C \<or> c = 0x2F then Some c
      else if c = 0x62 then Some 0x08
      else if c = 0x66 then Some 0x0C
      else if c = 0x6E then Some 0x0A
      else if c = 0x72 then Some 0x0D
      else if c = 0x74 then Some 0x09
      else None)"

definition consume :: "16 word \<Rightarrow> (jsstring \<times> jsstring) option \<Rightarrow> (jsstring \<times> jsstring) option" where
  "consume c r = (case r of None \<Rightarrow> None | Some (s, rest) \<Rightarrow> Some (c # s, rest))"

text \<open>\<open>lex_string\<close> reads a string literal after its opening quote, up to the closing one.\<close>

fun lex_string :: "jsstring \<Rightarrow> (jsstring \<times> jsstring) option" where
  "lex_string [] = None"
| "lex_string [c] = (if c = 0x22 then Some ([], []) else None)"
| "lex_string (c # e # cs) =
     (if c = 0x22 then Some ([], e # cs)
      else if c = 0x5C then
        (if e = 0x75 then
           (case cs of
              h1 # h2 # h3 # h4 # cs' \<Rightarrow>
                (case (hexval h1, hexval h2, hexval h3, hexval h4) of
                   (Some a, Some b, Some c', Some d) \<Rightarrow>
                     consume (a * 0x1000 + b * 0x100 + c' * 0x10 + d) (lex_string cs')
                 | _ \<Rightarrow> None)
            | _ \<Rightarrow> None)
         else (case unescape e of None \<Rightarrow> None | Some u \<Rightarrow> consume u (lex_string cs)))
      else if c < 0x20 then None
      else consume c (lex_string (e # cs)))"

definition digits_val :: "jsstring \<Rightarrow> int" where
  "digits_val ds = foldl (\<lambda>n c. 10 * n + uint (c - 0x30)) 0 ds"

text \<open>
  The Number value of the literal \<open>m * 10 ^ e\<close>. Rounding to a double is modelled where
  a program can see it without arithmetic: a literal that rounds to zero (at most half
  the least positive double, \<open>2 ^ -1075\<close>) is zero, one that rounds beyond the largest
  double is an infinity. Any other value is kept unrounded.
\<close>

definition to_number :: "bool \<Rightarrow> int \<Rightarrow> int \<Rightarrow> jsnum" where
  "to_number neg m e =
     (let q = (if 0 \<le> e then of_int m * 10 ^ nat e else of_int m / 10 ^ nat (- e)) :: rat
      in if q \<le> 1 / 2 ^ 1075 then Finite 0
         else if 2 ^ 1024 - 2 ^ 970 \<le> q then (if neg then NegInfinity else PosInfinity)
         else Finite (if neg then - q else q))"

text \<open>The integer part of a number: a single \<open>0\<close>, or a digit sequence not starting with \<open>0\<close>.\<close>

definition int_part :: "jsstring \<Rightarrow> jsstring" where
  "int_part s = (case s of [] \<Rightarrow> [] | c # r \<Rightarrow> if c = 0x30 then [c] else takeWhile is_digit s)"

text \<open>The fraction: nothing, or a point and at least one digit. Returns the digits and the rest.\<close>

definition frac_part :: "jsstring \<Rightarrow> (jsstring \<times> jsstring) option" where
  "frac_part s =
     (case s of
        [] \<Rightarrow> Some ([], s)
      | c # r \<Rightarrow>
          if c = 0x2E then
            (if takeWhile is_digit r = [] then None
             else Some (takeWhile is_digit r, dropWhile is_digit r))
          else Some ([], s))"

definition exp_digits :: "int \<Rightarrow> jsstring \<Rightarrow> (int \<times> jsstring) option" where
  "exp_digits sign s =
     (if takeWhile is_digit s = [] then None
      else Some (sign * digits_val (takeWhile is_digit s), dropWhile is_digit s))"

text \<open>The exponent: nothing, or \<open>e\<close>/\<open>E\<close>, an optional sign and at least one digit.\<close>

definition exp_part :: "jsstring \<Rightarrow> (int \<times> jsstring) option" where
  "exp_part s =
     (case s of
        [] \<Rightarrow> Some (0, s)
      | c # r \<Rightarrow>
          if c = 0x65 \<or> c = 0x45 then
            (case r of
               [] \<Rightarrow> None
             | d # r' \<Rightarrow>
                 if d = 0x2B then exp_digits 1 r'
                 else if d = 0x2D then exp_digits (- 1) r'
                 else exp_digits 1 r)
          else Some (0, s))"

definition lex_unsigned :: "bool \<Rightarrow> jsstring \<Rightarrow> (jsnum \<times> jsstring) option" where
  "lex_unsigned neg s =
     (if int_part s = [] then None
      else
        (case frac_part (drop (length (int_part s)) s) of
           None \<Rightarrow> None
         | Some (fp, s') \<Rightarrow>
             (case exp_part s' of
                None \<Rightarrow> None
              | Some (ex, rest) \<Rightarrow>
                  Some (to_number neg (digits_val (int_part s @ fp)) (ex - int (length fp)), rest))))"

definition lex_number :: "jsstring \<Rightarrow> (jsnum \<times> jsstring) option" where
  "lex_number s =
     (case s of
        [] \<Rightarrow> None
      | c # r \<Rightarrow> if c = 0x2D then lex_unsigned True r else lex_unsigned False s)"

lemma consume_length:
  "consume c r = Some (s, rest) \<Longrightarrow> \<exists>s'. r = Some (s', rest)"
  by (auto simp: consume_def split: option.splits)

lemma lex_string_length:
  "lex_string cs = Some (s, rest) \<Longrightarrow> length rest < length cs"
proof (induction cs arbitrary: s rule: lex_string.induct)
  case 1
  then show ?case by simp
next
  case (2 c)
  then show ?case by (simp split: if_splits)
next
  case (3 c e cs)
  then show ?case
    by (fastforce split: if_splits list.splits option.splits dest!: consume_length)
qed

lemma frac_part_length: "frac_part s = Some (fp, rest) \<Longrightarrow> length rest \<le> length s"
  by (auto simp: frac_part_def length_dropWhile_le le_SucI split: list.splits if_splits)

lemma exp_digits_length: "exp_digits sg s = Some (ex, rest) \<Longrightarrow> length rest \<le> length s"
  by (auto simp: exp_digits_def length_dropWhile_le split: if_splits)

lemma exp_part_length: "exp_part s = Some (ex, rest) \<Longrightarrow> length rest \<le> length s"
  by (auto simp: exp_part_def le_SucI split: list.splits if_splits dest!: exp_digits_length)

lemma lex_unsigned_length:
  assumes "lex_unsigned neg s = Some (n, rest)"
  shows "length rest < length s"
proof -
  from assms have ne: "int_part s \<noteq> []"
    by (auto simp: lex_unsigned_def split: if_splits)
  from assms obtain fp s' ex where
    fp: "frac_part (drop (length (int_part s)) s) = Some (fp, s')" and
    ex: "exp_part s' = Some (ex, rest)"
    by (auto simp: lex_unsigned_def split: if_splits option.splits)
  have "length (int_part s) \<le> length s"
    by (auto simp: int_part_def length_takeWhile_le split: list.splits)
  moreover from ne have "0 < length (int_part s)" by simp
  moreover from fp have "length s' \<le> length s - length (int_part s)"
    by (auto dest: frac_part_length)
  moreover from ex have "length rest \<le> length s'" by (rule exp_part_length)
  ultimately show ?thesis by linarith
qed

lemma lex_number_length: "lex_number s = Some (n, rest) \<Longrightarrow> length rest < length s"
  by (auto simp: lex_number_def less_SucI split: list.splits if_splits dest!: lex_unsigned_length)


text \<open>The lexer. A literal name is recognised by its characters; what follows it is lexed on.\<close>

function tokenize :: "jsstring \<Rightarrow> token list option" where
  "tokenize [] = Some []"
| "tokenize (c # cs) =
     (if is_ws c then tokenize cs
      else if c = 0x7B then map_option (Cons TLBrace) (tokenize cs)
      else if c = 0x7D then map_option (Cons TRBrace) (tokenize cs)
      else if c = 0x5B then map_option (Cons TLBracket) (tokenize cs)
      else if c = 0x5D then map_option (Cons TRBracket) (tokenize cs)
      else if c = 0x3A then map_option (Cons TColon) (tokenize cs)
      else if c = 0x2C then map_option (Cons TComma) (tokenize cs)
      else if c = 0x22 then
        (case lex_string cs of
           None \<Rightarrow> None
         | Some (s, rest) \<Rightarrow> map_option (Cons (TString s)) (tokenize rest))
      else if c = 0x2D \<or> is_digit c then
        (case lex_number (c # cs) of
           None \<Rightarrow> None
         | Some (n, rest) \<Rightarrow> map_option (Cons (TNumber n)) (tokenize rest))
      else if take 4 (c # cs) = str ''true'' then map_option (Cons TTrue) (tokenize (drop 3 cs))
      else if take 5 (c # cs) = str ''false'' then map_option (Cons TFalse) (tokenize (drop 4 cs))
      else if take 4 (c # cs) = str ''null'' then map_option (Cons TNull) (tokenize (drop 3 cs))
      else None)"
  by pat_completeness auto
termination
proof (relation "measure length")
  show "wf (measure length)" by simp
next
  fix c :: "16 word" and cs x2 x y
  assume "lex_string cs = Some x2" "(x, y) = x2"
  then show "(y, c # cs) \<in> measure length"
    by (auto dest!: lex_string_length [of cs x y])
next
  fix c :: "16 word" and cs x2 x y
  assume "lex_number (c # cs) = Some x2" "(x, y) = x2"
  then show "(y, c # cs) \<in> measure length"
    by (auto dest!: lex_number_length [of "c # cs" x y])
qed simp_all

text \<open>
  The parser reads the tokens from left to right with a stack of the containers that are
  still open: an array with the elements read so far, an object with its members, and
  an object with its members and the key whose value is being read.
\<close>

datatype frame =
    FArray "jsval list"
  | FObject "(jsstring \<times> jsval) list"
  | FKey "(jsstring \<times> jsval) list" jsstring

datatype pstate =
    PValue "frame list"
  | PValueOrEnd "frame list"
  | PKey "frame list"
  | PKeyOrEnd "frame list"
  | PColon "frame list"
  | PAfter "frame list"
  | PDone jsval

fun obj_put :: "jsstring \<Rightarrow> jsval \<Rightarrow> (jsstring \<times> jsval) list \<Rightarrow> (jsstring \<times> jsval) list" where
  "obj_put k v [] = [(k, v)]"
| "obj_put k v ((k', v') # kvs) = (if k' = k then (k, v) # kvs else (k', v') # obj_put k v kvs)"

text \<open>A finished value goes to the innermost open container, or is the result.\<close>

fun push_value :: "jsval \<Rightarrow> frame list \<Rightarrow> pstate option" where
  "push_value v [] = Some (PDone v)"
| "push_value v (FArray vs # st) = Some (PAfter (FArray (vs @ [v]) # st))"
| "push_value v (FKey ms k # st) = Some (PAfter (FObject (obj_put k v ms) # st))"
| "push_value v (FObject ms # st) = None"

fun start_value :: "frame list \<Rightarrow> token \<Rightarrow> pstate option" where
  "start_value st (TString s) = push_value (JString s) st"
| "start_value st (TNumber n) = push_value (JNumber n) st"
| "start_value st TTrue = push_value (JBool True) st"
| "start_value st TFalse = push_value (JBool False) st"
| "start_value st TNull = push_value JNull st"
| "start_value st TLBracket = Some (PValueOrEnd (FArray [] # st))"
| "start_value st TLBrace = Some (PKeyOrEnd (FObject [] # st))"
| "start_value st t = None"

fun close_frame :: "frame list \<Rightarrow> token \<Rightarrow> pstate option" where
  "close_frame (FArray vs # st) TRBracket = push_value (JArray vs) st"
| "close_frame (FObject ms # st) TRBrace = push_value (JObject ms) st"
| "close_frame st t = None"

fun read_key :: "frame list \<Rightarrow> token \<Rightarrow> pstate option" where
  "read_key (FObject ms # st) (TString k) = Some (PColon (FKey ms k # st))"
| "read_key st t = None"

fun after_value :: "frame list \<Rightarrow> token \<Rightarrow> pstate option" where
  "after_value (FArray vs # st) TComma = Some (PValue (FArray vs # st))"
| "after_value (FObject ms # st) TComma = Some (PKey (FObject ms # st))"
| "after_value st t = close_frame st t"

fun pstep :: "pstate \<Rightarrow> token \<Rightarrow> pstate option" where
  "pstep (PValue st) t = start_value st t"
| "pstep (PValueOrEnd st) t = (if t = TRBracket then close_frame st t else start_value st t)"
| "pstep (PKey st) t = read_key st t"
| "pstep (PKeyOrEnd st) t = (if t = TRBrace then close_frame st t else read_key st t)"
| "pstep (PColon st) t = (if t = TColon then Some (PValue st) else None)"
| "pstep (PAfter st) t = after_value st t"
| "pstep (PDone v) t = None"

fun prun :: "pstate \<Rightarrow> token list \<Rightarrow> pstate option" where
  "prun p [] = Some p"
| "prun p (t # ts) = (case pstep p t of None \<Rightarrow> None | Some p' \<Rightarrow> prun p' ts)"

text \<open>\<open>JSON.parse(text)\<close>: the value, or a thrown SyntaxError.\<close>

definition JSON_parse :: "jsstring \<Rightarrow> jsval + jsval" where
  "JSON_parse text =
     (case tokenize text of
        None \<Rightarrow> Inl (JError SyntaxError [])
      | Some ts \<Rightarrow>
          (case prun (PValue []) ts of
             Some (PDone v) \<Rightarrow> Inr v
           | _ \<Rightarrow> Inl (JError SyntaxError [])))"


section \<open>String.prototype.split\<close>

text \<open>
  \<open>s.split(sep)\<close> for a separator of one code unit: the pieces of \<open>s\<close> between the
  occurrences of \<open>sep\<close>; a string without the separator is its own single piece.
\<close>

fun split_on :: "16 word \<Rightarrow> jsstring \<Rightarrow> jsstring list" where
  "split_on sep [] = [[]]"
| "split_on sep (c # cs) =
     (if c = sep then [] # split_on sep cs
      else (case split_on sep cs of [] \<Rightarrow> [[c]] | p # ps \<Rightarrow> (c # p) # ps))"

text \<open>\<open>s.split(sep, limit)\<close> keeps the first \<open>limit\<close> pieces.\<close>

definition js_split :: "jsstring \<Rightarrow> 16 word \<Rightarrow> nat \<Rightarrow> jsstring list" where
  "js_split s sep limit = take limit (split_on sep s)"

text \<open>\<open>xs[i]\<close> on an array of strings: \<open>undefined\<close> beyond its end.\<close>

definition index :: "jsstring list \<Rightarrow> nat \<Rightarrow> jsval" where
  "index xs i = (if i < length xs then JString (xs ! i) else JUndefined)"

section \<open>The strategy (src/index.js)\<close>

text \<open>
  The options the constructor reads. A field name or URL is a string or absent;
  \<open>passReqToCallback\<close> is any value, tested for truthiness.
\<close>

record options =
  opt_accessTokenField :: "jsstring option"
  opt_refreshTokenField :: "jsstring option"
  opt_profileURL :: "jsstring option"
  opt_passReqToCallback :: jsval

record strategy =
  name :: jsstring
  accessTokenField :: jsstring
  refreshTokenField :: jsstring
  profileURL :: jsstring
  passReqToCallback :: jsval

text \<open>\<open>options.x || d\<close> for an optional string: absent and the empty string give \<open>d\<close>.\<close>

definition or_default :: "jsstring option \<Rightarrow> jsstring \<Rightarrow> jsstring" where
  "or_default x d = (case x of None \<Rightarrow> d | Some s \<Rightarrow> if s = [] then d else s)"

text \<open>
  The constructor, as far as this class goes: the fields it sets on \<open>this\<close>. The
  constructor of the base class \<open>OAuth2Strategy\<close> (package passport-oauth), which
  checks the client credentials and builds the OAuth2 client, is not part of the
  repository; nor is the client, which the last two statements of the constructor
  configure (the name of its token parameter, and the Authorization header for GET).
\<close>

definition YandexTokenStrategy :: "options \<Rightarrow> strategy" where
  "YandexTokenStrategy opts =
     \<lparr> name = str ''yandex-token'',
       accessTokenField = or_default (opt_accessTokenField opts) (str ''access_token''),
       refreshTokenField = or_default (opt_refreshTokenField opts) (str ''refresh_token''),
       profileURL = or_default (opt_profileURL opts) (str ''https://login.yandex.ru/info?format=json''),
       passReqToCallback = opt_passReqToCallback opts \<rparr>"

text \<open>
  The request: the containers \<open>authenticate\<close> reads (\<open>headers\<close> is read by
  lib/Strategy.js only). An absent container is \<open>JUndefined\<close>.
\<close>

record request =
  body :: jsval
  query :: jsval
  headers :: jsval

text \<open>
  \<open>c && c[field]\<close>: the guard keeps the property read away from \<open>undefined\<close> and
  \<open>null\<close>, so it cannot throw.
\<close>

definition field_of :: "chain \<Rightarrow> jsval \<Rightarrow> jsstring \<Rightarrow> jsval" where
  "field_of ch c field = js_and c (read ch c field)"

text \<open>Lines 57 and 58 of src/index.js: the right-hand sides of the two \<open>let\<close>s.\<close>

definition accessToken :: "chain \<Rightarrow> strategy \<Rightarrow> request \<Rightarrow> jsval" where
  "accessToken ch self req =
     js_or (field_of ch (body req) (accessTokenField self)) (field_of ch (query req) (accessTokenField self))"

definition refreshToken :: "chain \<Rightarrow> strategy \<Rightarrow> request \<Rightarrow> jsval" where
  "refreshToken ch self req =
     js_or (field_of ch (body req) (refreshTokenField self)) (field_of ch (query req) (refreshTokenField self))"

subsection \<open>Effects\<close>

text \<open>
  The calls the strategy makes on its collaborators, in the order of one authentication
  attempt: the authenticated GET of the OAuth2 client, the verify function of the
  application, and the three completion callbacks of Passport.
\<close>

datatype arg = ArgReq request | ArgVal jsval | ArgVerified

datatype event =
    CallGet jsstring jsval
  | CallVerify "arg list"
  | CallSuccess jsval jsval
  | CallFail jsval
  | CallError jsval

text \<open>
  The OAuth2 client answers a GET by calling back once with \<open>(error, body)\<close>.
\<close>

type_synonym oauth2_get = "jsstring \<Rightarrow> jsval \<Rightarrow> jsval \<times> jsstring"

text \<open>
  The verify function is the application's. What the strategy sees of one invocation:
  the calls it makes of \<open>verified\<close>, each with \<open>(error, user, info)\<close>, and the exception,
  if any, that leaves the invocation (thrown by the function itself or by a callback it
  calls synchronously). The trace lists the effects of the calls before the exception is
  handled.
\<close>

record verify_result =
  calls :: "(jsval \<times> jsval \<times> jsval) list"
  thrown :: "jsval option"

type_synonym verify_fn = "arg list \<Rightarrow> verify_result"

text \<open>
  A piece of the attempt yields the events it caused and the exception that leaves it,
  if any.
\<close>

type_synonym outcome = "event list \<times> jsval option"

definition terminal :: "event \<Rightarrow> bool" where
  "terminal ev = (case ev of CallSuccess u i \<Rightarrow> True | CallFail i \<Rightarrow> True | CallError e \<Rightarrow> True | _ \<Rightarrow> False)"

subsection \<open>userProfile\<close>

text \<open>
  \<open>new InternalOAuthError(message, err)\<close> of passport-oauth: an error object with
  the properties \<open>name\<close>, \<open>message\<close> and \<open>oauthError\<close>, the latter being \<open>err\<close>.
\<close>

definition new_InternalOAuthError :: "jsstring \<Rightarrow> jsval \<Rightarrow> jsval" where
  "new_InternalOAuthError message err =
     JError InternalOAuthError
       [(str ''name'', JString (str ''InternalOAuthError'')),
        (str ''message'', JString message),
        (str ''oauthError'', err)]"

text \<open>
  \<open>json.real_name ? json.real_name.split(' ', 2)[i] : ''\<close>. Only a string has a
  \<open>split\<close> method: on any other truthy value the call throws a TypeError.
\<close>

definition name_part :: "jsval \<Rightarrow> nat \<Rightarrow> jsval + jsval" where
  "name_part real_name i =
     (if truthy real_name then
        (case real_name of
           JString s \<Rightarrow> Inr (index (js_split s 0x20 2) i)
         | _ \<Rightarrow> Inl (JError TypeError []))
      else Inr (JString []))"

text \<open>
  Lines 90 to 103: the \<open>try\<close> block up to the profile. \<open>Inl\<close> is the exception that
  reaches the \<open>catch\<close>.
\<close>

definition parse_profile :: "jsstring \<Rightarrow> jsval + jsval" where
  "parse_profile body' =
     (case JSON_parse body' of Inl e \<Rightarrow> Inl e | Inr json \<Rightarrow>
      case get json (str ''id'') of Inl e \<Rightarrow> Inl e | Inr id' \<Rightarrow>
      case get json (str ''display_name'') of Inl e \<Rightarrow> Inl e | Inr display_name \<Rightarrow>
      case get json (str ''real_name'') of Inl e \<Rightarrow> Inl e | Inr real_name \<Rightarrow>
      case name_part real_name 0 of Inl e \<Rightarrow> Inl e | Inr familyName \<Rightarrow>
      case name_part real_name 1 of Inl e \<Rightarrow> Inl e | Inr givenName \<Rightarrow>
      case get json (str ''default_email'') of Inl e \<Rightarrow> Inl e | Inr default_email \<Rightarrow>
        Inr (JObject
          [(str ''provider'', JString (str ''yandex'')),
           (str ''id'', id'),
           (str ''displayName'', display_name),
           (str ''name'', JObject [(str ''familyName'', familyName), (str ''givenName'', givenName)]),
           (str ''emails'', JArray [JObject [(str ''value'', default_email)]]),
           (str ''photos'', JArray []),
           (str ''_raw'', JString body'),
           (str ''_json'', json)]))"

text \<open>
  The callback given to \<open>this._oauth2.get\<close> (lines 86 to 109), applied to the client's
  answer. \<open>done\<close> is called with \<open>(error, profile)\<close>. The \<open>try\<close> block encloses the
  call \<open>done(null, profile)\<close>: an exception that leaves it is caught and \<open>done\<close> is
  called with it.
\<close>

definition got :: "(jsval \<times> jsval \<Rightarrow> outcome) \<Rightarrow> jsval \<times> jsstring \<Rightarrow> outcome" where
  "got done answer =
     (case answer of (error, body') \<Rightarrow>
        if truthy error then
          done (new_InternalOAuthError (str ''Failed to fetch user profile'') (property error (str ''statusCode'')), JUndefined)
        else
          (case parse_profile body' of
             Inl e \<Rightarrow> done (e, JUndefined)
           | Inr profile \<Rightarrow>
               (case done (JNull, profile) of
                  (evs, None) \<Rightarrow> (evs, None)
                | (evs, Some e) \<Rightarrow> (case done (e, JUndefined) of (evs', x) \<Rightarrow> (evs @ evs', x)))))"

definition userProfile :: "strategy \<Rightarrow> oauth2_get \<Rightarrow> jsval \<Rightarrow> (jsval \<times> jsval \<Rightarrow> outcome) \<Rightarrow> outcome" where
  "userProfile self oauth2 token done =
     (case got done (oauth2 (profileURL self) token) of
        (evs, x) \<Rightarrow> (CallGet (profileURL self) token # evs, x))"

subsection \<open>authenticate\<close>

text \<open>Lines 65 to 70.\<close>

definition verified :: "jsval \<times> jsval \<times> jsval \<Rightarrow> event list" where
  "verified r =
     (case r of (error, user, info) \<Rightarrow>
        if truthy error then [CallError error]
        else if \<not> truthy user then [CallFail info]
        else [CallSuccess user info])"

text \<open>Lines 72 to 76: the arguments of the call of \<open>this._verify\<close>.\<close>

definition verify_args :: "strategy \<Rightarrow> request \<Rightarrow> jsval \<Rightarrow> jsval \<Rightarrow> jsval \<Rightarrow> arg list" where
  "verify_args self req token refresh profile =
     (if truthy (passReqToCallback self)
      then [ArgReq req, ArgVal token, ArgVal refresh, ArgVal profile, ArgVerified]
      else [ArgVal token, ArgVal refresh, ArgVal profile, ArgVerified])"

text \<open>The callback given to \<open>this._loadUserProfile\<close> (lines 62 to 77).\<close>

definition loaded :: "strategy \<Rightarrow> verify_fn \<Rightarrow> request \<Rightarrow> jsval \<Rightarrow> jsval \<Rightarrow> jsval \<times> jsval \<Rightarrow> outcome" where
  "loaded self verify req token refresh r =
     (case r of (error, profile) \<Rightarrow>
        if truthy error then ([CallError error], None)
        else
          (CallVerify (verify_args self req token refresh profile)
             # concat (map verified (calls (verify (verify_args self req token refresh profile)))),
           thrown (verify (verify_args self req token refresh profile))))"

text \<open>
  \<open>this._loadUserProfile\<close> is a method of the base class \<open>OAuth2Strategy\<close> (package
  passport-oauth). Unless the application sets the base class's option
  \<open>skipUserProfile\<close>, it calls \<open>this.userProfile(accessToken, done)\<close>; that is what is
  modelled.
\<close>

definition loadUserProfile :: "strategy \<Rightarrow> oauth2_get \<Rightarrow> jsval \<Rightarrow> (jsval \<times> jsval \<Rightarrow> outcome) \<Rightarrow> outcome" where
  "loadUserProfile self oauth2 token done = userProfile self oauth2 token done"

definition authenticate :: "chain \<Rightarrow> strategy \<Rightarrow> oauth2_get \<Rightarrow> verify_fn \<Rightarrow> request \<Rightarrow> outcome" where
  "authenticate ch self oauth2 verify req =
     (if \<not> truthy (accessToken ch self req) then
        ([CallFail (JObject [(str ''message'', JString (str ''You should provide '' @ accessTokenField self))])], None)
      else
        loadUserProfile self oauth2 (accessToken ch self req)
          (loaded self verify req (accessToken ch self req) (refreshToken ch self req)))"

section \<open>The earlier build (lib/Strategy.js)\<close>

text \<open>
  lib/Strategy.js differs from src/index.js in \<open>authenticate\<close>: the field names are
  fixed, the request headers are a third source of the tokens, and the message is
  fixed. Its \<open>userProfile\<close> is the one above, statement for statement.
\<close>

definition lib_accessToken :: "chain \<Rightarrow> request \<Rightarrow> jsval" where
  "lib_accessToken ch req =
     js_or (js_or (field_of ch (body req) (str ''access_token'')) (field_of ch (query req) (str ''access_token'')))
       (field_of ch (headers req) (str ''access_token''))"

definition lib_refreshToken :: "chain \<Rightarrow> request \<Rightarrow> jsval" where
  "lib_refreshToken ch req =
     js_or (js_or (field_of ch (body req) (str ''refresh_token'')) (field_of ch (query req) (str ''refresh_token'')))
       (field_of ch (headers req) (str ''refresh_token''))"

definition lib_authenticate :: "chain \<Rightarrow> strategy \<Rightarrow> oauth2_get \<Rightarrow> verify_fn \<Rightarrow> request \<Rightarrow> outcome" where
  "lib_authenticate ch self oauth2 verify req =
     (if \<not> truthy (lib_accessToken ch req) then
        ([CallFail (JObject [(str ''message'', JString (str ''You should provide access_token''))])], None)
      else
        loadUserProfile self oauth2 (lib_accessToken ch req)
          (loaded self verify req (lib_accessToken ch req) (lib_refreshToken ch req)))"


section \<open>Properties\<close>

text \<open>
  A container gives a non-empty value under a name: the container is there and the
  value read from it under the name, own or inherited, is truthy.
\<close>

definition has_value :: "chain \<Rightarrow> jsval \<Rightarrow> jsstring \<Rightarrow> bool" where
  "has_value ch c field = (truthy c \<and> truthy (read ch c field))"

lemma truthy_field_of: "truthy (field_of ch c f) = has_value ch c f"
  by (simp add: field_of_def js_and_def has_value_def)

lemma js_or_truthy: "truthy a \<Longrightarrow> js_or a x = a"
  by (simp add: js_or_def)

lemma has_value_truthy: "has_value ch c f \<Longrightarrow> truthy (read ch c f)"
  by (simp add: has_value_def)

lemma js_or_field_of_present: "has_value ch c f \<Longrightarrow> js_or (field_of ch c f) x = read ch c f"
  by (simp add: js_or_def field_of_def js_and_def has_value_def)

lemma read_own: "own c f = Some v \<Longrightarrow> read ch c f = v"
  by (simp add: read_def)

lemma has_value_own: "truthy c \<Longrightarrow> own c f = Some v \<Longrightarrow> truthy v \<Longrightarrow> has_value ch c f"
  by (simp add: has_value_def read_own)

lemma js_or_field_of_absent: "\<not> has_value ch c f \<Longrightarrow> js_or (field_of ch c f) x = x"
  by (auto simp: js_or_def field_of_def js_and_def has_value_def)

subsection \<open>Inputs of the examples\<close>

text \<open>
  A runtime for the requests of the examples, whose containers are plain objects or
  absent: a plain object inherits the properties of \<open>Object.prototype\<close>, which are
  functions (numbered here; \<open>JFunction 0\<close> is the function \<open>Object\<close>), and its
  \<open>__proto__\<close> reads as that prototype. Values of other kinds are given nothing: the
  examples do not use them as containers.
\<close>

definition Object_prototype :: "(jsstring \<times> jsval) list" where
  "Object_prototype =
     [(str ''constructor'', JFunction 0),
      (str ''__defineGetter__'', JFunction 1),
      (str ''__defineSetter__'', JFunction 2),
      (str ''hasOwnProperty'', JFunction 3),
      (str ''__lookupGetter__'', JFunction 4),
      (str ''__lookupSetter__'', JFunction 5),
      (str ''isPrototypeOf'', JFunction 6),
      (str ''propertyIsEnumerable'', JFunction 7),
      (str ''toString'', JFunction 8),
      (str ''valueOf'', JFunction 9),
      (str ''toLocaleString'', JFunction 10)]"

definition object_chain :: chain where
  "object_chain v k =
     (case v of
        JObject kvs \<Rightarrow>
          if k = str ''__proto__'' then JObject Object_prototype else lookup Object_prototype k
      | _ \<Rightarrow> JUndefined)"

definition default_options :: options where
  "default_options =
     \<lparr> opt_accessTokenField = None, opt_refreshTokenField = None, opt_profileURL = None,
       opt_passReqToCallback = JUndefined \<rparr>"

definition tokens :: jsval where
  "tokens =
     JObject [(str ''access_token'', JString (str ''access_token'')),
              (str ''refresh_token'', JString (str ''refresh_token''))]"

definition empty_request :: request where
  "empty_request = \<lparr> body = JUndefined, query = JUndefined, headers = JUndefined \<rparr>"

definition body_request :: request where
  "body_request = \<lparr> body = tokens, query = JUndefined, headers = JUndefined \<rparr>"

definition query_request :: request where
  "query_request = \<lparr> body = JUndefined, query = tokens, headers = JUndefined \<rparr>"

definition both_request :: request where
  "both_request =
     \<lparr> body = tokens,
       query = JObject [(str ''access_token'', JString (str ''other''))],
       headers = JUndefined \<rparr>"

text \<open>The body of the profile document of claim C4, and a client that answers with it.\<close>

definition fake_profile :: jsstring where
  "fake_profile = str ''{\"id\":\"00000000\",\"display_name\":\"ghaiklor\",\"real_name\":\"Eugene Obrezkov\",\"default_email\":\"ghaiklor@gmail.com\"}''"

definition get_ok :: oauth2_get where
  "get_ok url token = (JNull, fake_profile)"

text \<open>
  The verify function of the repository's tests: it calls
  \<open>next(null, profile, {info: 'foo'})\<close> once.
\<close>

definition profile_arg :: "arg list \<Rightarrow> jsval" where
  "profile_arg args = (case rev args of ArgVerified # ArgVal p # rest \<Rightarrow> p | _ \<Rightarrow> JUndefined)"

definition verify_accept :: verify_fn where
  "verify_accept args =
     \<lparr> calls = [(JNull, profile_arg args, JObject [(str ''info'', JString (str ''foo''))])],
       thrown = None \<rparr>"

lemma default_strategy:
  "YandexTokenStrategy default_options =
     \<lparr> name = str ''yandex-token'', accessTokenField = str ''access_token'',
       refreshTokenField = str ''refresh_token'',
       profileURL = str ''https://login.yandex.ru/info?format=json'',
       passReqToCallback = JUndefined \<rparr>"
  by (simp add: YandexTokenStrategy_def default_options_def or_default_def)

lemma has_value_tokens:
  "has_value object_chain tokens (str ''access_token'')" "has_value object_chain tokens (str ''refresh_token'')"
  by (simp_all add: has_value_def read_def tokens_def str_def)

lemma default_accessToken:
  "accessToken object_chain (YandexTokenStrategy default_options) body_request = JString (str ''access_token'')"
  by (simp add: default_strategy accessToken_def body_request_def tokens_def field_of_def
      js_and_def js_or_def read_def str_def)

lemma default_refreshToken:
  "refreshToken object_chain (YandexTokenStrategy default_options) body_request = JString (str ''refresh_token'')"
  by (simp add: default_strategy refreshToken_def body_request_def tokens_def field_of_def
      js_and_def js_or_def read_def str_def)

lemma not_has_value_undefined: "\<not> has_value ch JUndefined f"
  by (simp add: has_value_def)

subsection \<open>C2: no access token\<close>

text \<open>
  C2, as the code has it. When the reads of the configured access-token field name from
  the body and from the query of the request give no truthy value (a read finds
  inherited properties too), \<open>authenticate\<close> calls \<open>fail\<close> with the object
  \<open>{message: "You should provide " + field}\<close> and does nothing else: the OAuth2
  client's GET is not called, whatever its URL and token. With the default
  configuration the message is "You should provide access_token".
\<close>

theorem authenticate_without_token:
  assumes "\<not> has_value ch (body req) (accessTokenField self)"
    and "\<not> has_value ch (query req) (accessTokenField self)"
  shows "authenticate ch self oauth2 verify req =
           ([CallFail (JObject [(str ''message'',
               JString (str ''You should provide '' @ accessTokenField self))])], None)
         \<and> CallGet url token \<notin> set (fst (authenticate ch self oauth2 verify req))"
proof -
  from assms have "\<not> truthy (accessToken ch self req)"
    by (simp add: accessToken_def js_or_def truthy_field_of)
  then show ?thesis
    by (simp add: authenticate_def)
qed

theorem authenticate_without_token_witness:
  "authenticate object_chain (YandexTokenStrategy default_options) get_ok verify_accept empty_request =
     ([CallFail (JObject [(str ''message'', JString (str ''You should provide access_token''))])], None)"
proof -
  have b: "\<not> has_value object_chain (body empty_request) (accessTokenField (YandexTokenStrategy default_options))"
    by (simp add: empty_request_def not_has_value_undefined)
  have q: "\<not> has_value object_chain (query empty_request) (accessTokenField (YandexTokenStrategy default_options))"
    by (simp add: empty_request_def not_has_value_undefined)
  from authenticate_without_token [where ch = object_chain
      and self = "YandexTokenStrategy default_options" and req = empty_request
      and ?oauth2.0 = get_ok and verify = verify_accept, OF b q]
  show ?thesis
    by (simp add: default_strategy str_def)
qed

subsection \<open>C7: the body before the query\<close>

text \<open>
  C7. When the body of the request holds a non-empty value under the access-token field
  name (an own property with a truthy value, or more generally a truthy value read
  under the name), the access token is that value, whatever the query holds; only
  when the body gives none is it what the query gives. The refresh token is found the
  same way under its own name, independently. lib/Strategy.js does the same under its
  fixed names, with the headers after the query.
\<close>

theorem body_precedence:
  "(truthy (body req) \<and> own (body req) (accessTokenField self) = Some v \<and> truthy v \<longrightarrow>
      accessToken ch self req = v) \<and>
   (truthy (body req) \<and> own (body req) (refreshTokenField self) = Some w \<and> truthy w \<longrightarrow>
      refreshToken ch self req = w) \<and>
   (has_value ch (body req) (accessTokenField self) \<longrightarrow>
      accessToken ch self req = read ch (body req) (accessTokenField self)) \<and>
   (\<not> has_value ch (body req) (accessTokenField self) \<longrightarrow>
      accessToken ch self req = field_of ch (query req) (accessTokenField self)) \<and>
   (has_value ch (body req) (refreshTokenField self) \<longrightarrow>
      refreshToken ch self req = read ch (body req) (refreshTokenField self)) \<and>
   (\<not> has_value ch (body req) (refreshTokenField self) \<longrightarrow>
      refreshToken ch self req = field_of ch (query req) (refreshTokenField self)) \<and>
   (has_value ch (body req) (str ''access_token'') \<longrightarrow>
      lib_accessToken ch req = read ch (body req) (str ''access_token'')) \<and>
   (\<not> has_value ch (body req) (str ''access_token'') \<longrightarrow>
      lib_accessToken ch req =
        js_or (field_of ch (query req) (str ''access_token'')) (field_of ch (headers req) (str ''access_token''))) \<and>
   (has_value ch (body req) (str ''refresh_token'') \<longrightarrow>
      lib_refreshToken ch req = read ch (body req) (str ''refresh_token'')) \<and>
   (\<not> has_value ch (body req) (str ''refresh_token'') \<longrightarrow>
      lib_refreshToken ch req =
        js_or (field_of ch (query req) (str ''refresh_token'')) (field_of ch (headers req) (str ''refresh_token'')))"
proof (intro conjI impI)
  assume "truthy (body req) \<and> own (body req) (accessTokenField self) = Some v \<and> truthy v"
  then have "has_value ch (body req) (accessTokenField self)"
    and "read ch (body req) (accessTokenField self) = v"
    by (simp_all add: has_value_own read_own)
  then show "accessToken ch self req = v"
    by (simp add: accessToken_def js_or_field_of_present)
next
  assume "truthy (body req) \<and> own (body req) (refreshTokenField self) = Some w \<and> truthy w"
  then have "has_value ch (body req) (refreshTokenField self)"
    and "read ch (body req) (refreshTokenField self) = w"
    by (simp_all add: has_value_own read_own)
  then show "refreshToken ch self req = w"
    by (simp add: refreshToken_def js_or_field_of_present)
qed (simp_all add: accessToken_def refreshToken_def lib_accessToken_def lib_refreshToken_def
    js_or_field_of_present js_or_field_of_absent js_or_truthy has_value_truthy)

theorem body_precedence_witness:
  "accessToken object_chain (YandexTokenStrategy default_options) both_request = JString (str ''access_token'') \<and>
   refreshToken object_chain (YandexTokenStrategy default_options) both_request = JString (str ''refresh_token'') \<and>
   lib_accessToken object_chain both_request = JString (str ''access_token'') \<and>
   lib_refreshToken object_chain both_request = JString (str ''refresh_token'') \<and>
   accessToken object_chain (YandexTokenStrategy default_options) query_request = JString (str ''access_token'') \<and>
   refreshToken object_chain (YandexTokenStrategy default_options) query_request = JString (str ''refresh_token'') \<and>
   lib_accessToken object_chain query_request = JString (str ''access_token'') \<and>
   lib_refreshToken object_chain query_request = JString (str ''refresh_token'')"
  using body_precedence [where ch = object_chain and req = both_request
      and self = "YandexTokenStrategy default_options"
      and v = "JString (str ''access_token'')" and w = "JString (str ''refresh_token'')"]
    body_precedence [where ch = object_chain and req = query_request
      and self = "YandexTokenStrategy default_options"
      and v = "JString (str ''access_token'')" and w = "JString (str ''refresh_token'')"]
  by (simp add: default_strategy both_request_def query_request_def has_value_def tokens_def
      field_of_def js_and_def js_or_def read_def str_def)

subsection \<open>C4: the profile of the tests\<close>

text \<open>The parsed document of \<open>fake_profile\<close> and the profile the code builds from it.\<close>

definition fake_json :: jsval where
  "fake_json =
     JObject [(str ''id'', JString (str ''00000000'')),
              (str ''display_name'', JString (str ''ghaiklor'')),
              (str ''real_name'', JString (str ''Eugene Obrezkov'')),
              (str ''default_email'', JString (str ''ghaiklor@gmail.com''))]"

definition fake_normalized :: jsval where
  "fake_normalized =
     JObject [(str ''provider'', JString (str ''yandex'')),
              (str ''id'', JString (str ''00000000'')),
              (str ''displayName'', JString (str ''ghaiklor'')),
              (str ''name'', JObject [(str ''familyName'', JString (str ''Eugene'')),
                                      (str ''givenName'', JString (str ''Obrezkov''))]),
              (str ''emails'', JArray [JObject [(str ''value'', JString (str ''ghaiklor@gmail.com''))]]),
              (str ''photos'', JArray []),
              (str ''_raw'', JString fake_profile),
              (str ''_json'', fake_json)]"

lemma JSON_parse_fake_profile: "JSON_parse fake_profile = Inr fake_json"
  by (simp add: JSON_parse_def fake_profile_def fake_json_def str_def is_ws_def is_digit_def consume_def unescape_def)

lemma parse_profile_fake_profile: "parse_profile fake_profile = Inr fake_normalized"
  unfolding parse_profile_def JSON_parse_fake_profile
  by (simp add: fake_json_def fake_normalized_def get_def name_part_def js_split_def index_def str_def)

lemma fake_normalized_fields:
  "property fake_normalized (str ''provider'') = JString (str ''yandex'')"
  "property fake_normalized (str ''id'') = JString (str ''00000000'')"
  "property fake_normalized (str ''displayName'') = JString (str ''ghaiklor'')"
  "property (property fake_normalized (str ''name'')) (str ''familyName'') = JString (str ''Eugene'')"
  "property (property fake_normalized (str ''name'')) (str ''givenName'') = JString (str ''Obrezkov'')"
  "property fake_normalized (str ''emails'') = JArray [JObject [(str ''value'', JString (str ''ghaiklor@gmail.com''))]]"
  by (simp_all add: fake_normalized_def str_def)

text \<open>
  C4, as the code has it. For the body
  \<open>{"id":"00000000","display_name":"ghaiklor","real_name":"Eugene Obrezkov","default_email":"ghaiklor@gmail.com"}\<close>
  normalization succeeds, and the profile has provider "yandex", id "00000000",
  displayName "ghaiklor", name.familyName "Eugene", name.givenName "Obrezkov" and
  the one-element list of emails \<open>[{value: "ghaiklor@gmail.com"}]\<close>.
\<close>

theorem fake_profile_normalized:
  "parse_profile fake_profile = Inr fake_normalized \<and>
   property fake_normalized (str ''provider'') = JString (str ''yandex'') \<and>
   property fake_normalized (str ''id'') = JString (str ''00000000'') \<and>
   property fake_normalized (str ''displayName'') = JString (str ''ghaiklor'') \<and>
   property (property fake_normalized (str ''name'')) (str ''familyName'') = JString (str ''Eugene'') \<and>
   property (property fake_normalized (str ''name'')) (str ''givenName'') = JString (str ''Obrezkov'') \<and>
   property fake_normalized (str ''emails'')
     = JArray [JObject [(str ''value'', JString (str ''ghaiklor@gmail.com''))]]"
  by (simp only: parse_profile_fake_profile fake_normalized_fields simp_thms)

text \<open>
  C4 as the claim states it fails in one field: the provider of the profile is
  "yandex", not "yandex-equivalent".
\<close>

theorem fake_profile_provider_counterexample:
  "parse_profile fake_profile = Inr fake_normalized \<and>
   property fake_normalized (str ''provider'') \<noteq> JString (str ''yandex-equivalent'')"
  by (simp add: parse_profile_fake_profile) (simp add: fake_normalized_def str_def)

subsection \<open>C5: a failed fetch\<close>

lemma truthy_new_InternalOAuthError: "truthy (new_InternalOAuthError m x)"
  by (simp add: new_InternalOAuthError_def)

lemma loaded_error: "truthy e \<Longrightarrow> loaded self verify req token refresh (e, p) = ([CallError e], None)"
  by (simp add: loaded_def)

lemma got_error:
  "truthy error \<Longrightarrow>
   got done (error, body') =
     done (new_InternalOAuthError (str ''Failed to fetch user profile'') (property error (str ''statusCode'')), JUndefined)"
  by (simp add: got_def)

lemma got_parse_error:
  "\<not> truthy error \<Longrightarrow> parse_profile body' = Inl e \<Longrightarrow> got done (error, body') = done (e, JUndefined)"
  by (simp add: got_def)

lemma authenticate_with_token:
  "truthy (accessToken ch self req) \<Longrightarrow>
   authenticate ch self oauth2 verify req =
     (case got (loaded self verify req (accessToken ch self req) (refreshToken ch self req))
             (oauth2 (profileURL self) (accessToken ch self req)) of
        (evs, x) \<Rightarrow> (CallGet (profileURL self) (accessToken ch self req) # evs, x))"
  by (simp add: authenticate_def loadUserProfile_def userProfile_def)

text \<open>
  C5. When the OAuth2 client answers with a (truthy) error, the callback of
  \<open>userProfile\<close> calls \<open>done\<close> with a new InternalOAuthError and no profile, whatever
  the body is: the body is not parsed. The message of the error is "Failed to fetch
  user profile" and its \<open>oauthError\<close> is the \<open>statusCode\<close> of the client's error
  (\<open>undefined\<close> when it has none). \<open>authenticate\<close> then calls \<open>error\<close> with this
  error, and nothing else after the GET.
\<close>

theorem fetch_error_wrapped:
  assumes "truthy error"
  shows "got done (error, body') =
           done (new_InternalOAuthError (str ''Failed to fetch user profile'')
                   (property error (str ''statusCode'')), JUndefined)
         \<and> property (new_InternalOAuthError (str ''Failed to fetch user profile'')
                   (property error (str ''statusCode''))) (str ''message'')
             = JString (str ''Failed to fetch user profile'')
         \<and> property (new_InternalOAuthError (str ''Failed to fetch user profile'')
                   (property error (str ''statusCode''))) (str ''oauthError'')
             = property error (str ''statusCode'')
         \<and> (truthy (accessToken ch self req) \<and>
              oauth2 (profileURL self) (accessToken ch self req) = (error, body') \<longrightarrow>
              authenticate ch self oauth2 verify req =
                ([CallGet (profileURL self) (accessToken ch self req),
                  CallError (new_InternalOAuthError (str ''Failed to fetch user profile'')
                               (property error (str ''statusCode'')))], None))"
proof (intro conjI impI)
  show "got done (error, body') =
    done (new_InternalOAuthError (str ''Failed to fetch user profile'')
            (property error (str ''statusCode'')), JUndefined)"
    using assms by (rule got_error)
next
  show "property (new_InternalOAuthError (str ''Failed to fetch user profile'')
          (property error (str ''statusCode''))) (str ''message'')
        = JString (str ''Failed to fetch user profile'')"
    by (simp add: new_InternalOAuthError_def str_def)
next
  show "property (new_InternalOAuthError (str ''Failed to fetch user profile'')
          (property error (str ''statusCode''))) (str ''oauthError'')
        = property error (str ''statusCode'')"
    by (simp add: new_InternalOAuthError_def str_def)
next
  assume a: "truthy (accessToken ch self req) \<and>
    oauth2 (profileURL self) (accessToken ch self req) = (error, body')"
  then show "authenticate ch self oauth2 verify req =
    ([CallGet (profileURL self) (accessToken ch self req),
      CallError (new_InternalOAuthError (str ''Failed to fetch user profile'')
                   (property error (str ''statusCode'')))], None)"
    using assms
    by (simp add: authenticate_with_token got_error loaded_error truthy_new_InternalOAuthError)
qed


definition unauthorized :: jsval where
  "unauthorized =
     JObject [(str ''statusCode'', JNumber (Finite 401)), (str ''data'', JString (str ''denied''))]"

definition get_unauthorized :: oauth2_get where
  "get_unauthorized url token = (unauthorized, [])"

theorem fetch_error_wrapped_witness:
  "authenticate object_chain (YandexTokenStrategy default_options) get_unauthorized verify_accept body_request =
     ([CallGet (str ''https://login.yandex.ru/info?format=json'') (JString (str ''access_token'')),
       CallError (JError InternalOAuthError
         [(str ''name'', JString (str ''InternalOAuthError'')),
          (str ''message'', JString (str ''Failed to fetch user profile'')),
          (str ''oauthError'', JNumber (Finite 401))])], None)"
proof -
  have t: "truthy unauthorized"
    by (simp add: unauthorized_def)
  have a: "accessToken object_chain (YandexTokenStrategy default_options) body_request = JString (str ''access_token'')"
    by (simp add: default_strategy accessToken_def body_request_def tokens_def field_of_def
        js_and_def js_or_def read_def str_def)
  have s: "property unauthorized (str ''statusCode'') = JNumber (Finite 401)"
    by (simp add: unauthorized_def)
  from fetch_error_wrapped [where error = unauthorized and ch = object_chain
      and self = "YandexTokenStrategy default_options" and req = body_request
      and ?oauth2.0 = get_unauthorized and verify = verify_accept and body' = "[]"
      and ?done = "loaded (YandexTokenStrategy default_options) verify_accept body_request
        (JString (str ''access_token'')) JUndefined", OF t]
  show ?thesis
    by (simp add: a s get_unauthorized_def new_InternalOAuthError_def) (simp add: default_strategy str_def)
qed

subsection \<open>C6: a body that is not JSON\<close>

lemma JSON_parse_error: "JSON_parse body' = Inl e \<Longrightarrow> e = JError SyntaxError []"
  by (auto simp: JSON_parse_def split: option.splits pstate.splits)

lemma parse_profile_syntax_error: "JSON_parse body' = Inl e \<Longrightarrow> parse_profile body' = Inl e"
  by (simp add: parse_profile_def)

text \<open>
  C6. When the OAuth2 client answers without error and the body is not valid JSON, the
  callback of \<open>userProfile\<close> calls \<open>done\<close> with the SyntaxError that \<open>JSON.parse\<close>
  threw, as it is, and with no profile. The error is not an InternalOAuthError, so the
  two failures differ in kind. \<open>authenticate\<close> then calls \<open>error\<close> with it, and
  nothing else after the GET.
\<close>

theorem parse_error_unwrapped:
  assumes "\<not> truthy error" and "JSON_parse body' = Inl e"
  shows "got done (error, body') = done (e, JUndefined)
         \<and> e = JError SyntaxError []
         \<and> e \<noteq> new_InternalOAuthError m x
         \<and> parse_profile body' = Inl e
         \<and> (truthy (accessToken ch self req) \<and>
              oauth2 (profileURL self) (accessToken ch self req) = (error, body') \<longrightarrow>
              authenticate ch self oauth2 verify req =
                ([CallGet (profileURL self) (accessToken ch self req), CallError e], None))"
proof -
  from assms(2) have pe: "parse_profile body' = Inl e"
    by (rule parse_profile_syntax_error)
  from assms(2) have e: "e = JError SyntaxError []"
    by (rule JSON_parse_error)
  from assms(1) pe have g: "\<And>done. got done (error, body') = done (e, JUndefined)"
    by (rule got_parse_error)
  from e have t: "truthy e" by simp
  from e have ne: "e \<noteq> new_InternalOAuthError m x"
    by (simp add: new_InternalOAuthError_def)
  have "authenticate ch self oauth2 verify req =
      ([CallGet (profileURL self) (accessToken ch self req), CallError e], None)"
    if "truthy (accessToken ch self req) \<and> oauth2 (profileURL self) (accessToken ch self req) = (error, body')"
    using that t by (simp add: authenticate_with_token g loaded_error)
  with g pe e ne show ?thesis by blast
qed


definition get_garbage :: oauth2_get where
  "get_garbage url token = (JNull, str ''not a JSON'')"

lemma JSON_parse_garbage: "JSON_parse (str ''not a JSON'') = Inl (JError SyntaxError [])"
  by (simp add: JSON_parse_def str_def is_ws_def is_digit_def)

theorem parse_error_unwrapped_witness:
  "authenticate object_chain (YandexTokenStrategy default_options) get_garbage verify_accept body_request =
     ([CallGet (str ''https://login.yandex.ru/info?format=json'') (JString (str ''access_token'')),
       CallError (JError SyntaxError [])], None)"
proof -
  have t: "\<not> truthy JNull"
    by simp
  have a: "accessToken object_chain (YandexTokenStrategy default_options) body_request = JString (str ''access_token'')"
    by (simp add: default_strategy accessToken_def body_request_def tokens_def field_of_def
        js_and_def js_or_def read_def str_def)
  from parse_error_unwrapped [where error = JNull and body' = "str ''not a JSON''"
      and e = "JError SyntaxError []" and ch = object_chain
      and self = "YandexTokenStrategy default_options" and req = body_request
      and ?oauth2.0 = get_garbage and verify = verify_accept and m = "[]" and x = JUndefined
      and ?done = "loaded (YandexTokenStrategy default_options) verify_accept body_request
        (JString (str ''access_token'')) JUndefined", OF t JSON_parse_garbage]
  show ?thesis
    by (simp add: a get_garbage_def) (simp add: default_strategy str_def)
qed

subsection \<open>C8: the arguments of verify\<close>

lemma verify_args_append:
  "verify_args self req token refresh profile =
     (if truthy (passReqToCallback self) then [ArgReq req] else [])
       @ [ArgVal token, ArgVal refresh, ArgVal profile, ArgVerified]"
  by (simp add: verify_args_def)

lemma verified_not_verify: "CallVerify args \<notin> set (verified r)"
  by (cases r) (simp add: verified_def)

lemma loaded_verify:
  "CallVerify args \<in> set (fst (loaded self verify req token refresh (e, p))) \<Longrightarrow>
   args = verify_args self req token refresh p"
  by (auto simp: loaded_def verified_not_verify split: if_splits)

lemma got_events:
  "ev \<in> set (fst (got done answer)) \<Longrightarrow> \<exists>r. ev \<in> set (fst (done r))"
proof (cases answer)
  case (Pair error body')
  assume ev: "ev \<in> set (fst (got done answer))"
  show ?thesis
  proof (cases "truthy error")
    case True
    with ev Pair show ?thesis by (auto simp: got_def)
  next
    case False
    show ?thesis
    proof (cases "parse_profile body'")
      case (Inl e)
      with ev Pair False show ?thesis by (auto simp: got_def)
    next
      case (Inr profile)
      obtain evs x where d: "done (JNull, profile) = (evs, x)" by (cases "done (JNull, profile)")
      show ?thesis
      proof (cases x)
        case None
        with ev Pair False Inr d have "ev \<in> set (fst (done (JNull, profile)))"
          by (simp add: got_def)
        then show ?thesis by blast
      next
        case (Some e)
        obtain evs' x' where d': "done (e, JUndefined) = (evs', x')" by (cases "done (e, JUndefined)")
        with ev Pair False Inr d Some have "ev \<in> set evs \<or> ev \<in> set evs'"
          by (simp add: got_def)
        with d d' have "ev \<in> set (fst (done (JNull, profile))) \<or> ev \<in> set (fst (done (e, JUndefined)))"
          by simp
        then show ?thesis by blast
      qed
    qed
  qed
qed

lemma got_first_events:
  "\<not> truthy error \<Longrightarrow> parse_profile body' = Inr profile \<Longrightarrow>
   ev \<in> set (fst (done (JNull, profile))) \<Longrightarrow> ev \<in> set (fst (got done (error, body')))"
  by (auto simp: got_def split: prod.splits option.splits)

lemma loaded_calls_verify:
  "\<not> truthy e \<Longrightarrow>
   CallVerify (verify_args self req token refresh p)
     \<in> set (fst (loaded self verify req token refresh (e, p)))"
  by (simp add: loaded_def)

text \<open>
  C8. Every call of the verify function in an authentication attempt has the arguments
  \<open>(accessToken, refreshToken, profile, verified)\<close>, preceded by the request itself when
  \<open>passReqToCallback\<close> is configured (truthy) and by nothing when it is not. When the
  fetch and the normalization succeed, verify is called so with the normalized profile.
\<close>

theorem verify_arguments:
  "(CallVerify args \<in> set (fst (authenticate ch self oauth2 verify req)) \<longrightarrow>
      (\<exists>profile. args =
         (if truthy (passReqToCallback self) then [ArgReq req] else [])
           @ [ArgVal (accessToken ch self req), ArgVal (refreshToken ch self req), ArgVal profile, ArgVerified]))
   \<and> (truthy (accessToken ch self req) \<and>
        oauth2 (profileURL self) (accessToken ch self req) = (error, body') \<and>
        \<not> truthy error \<and> parse_profile body' = Inr profile \<longrightarrow>
        CallVerify ((if truthy (passReqToCallback self) then [ArgReq req] else [])
           @ [ArgVal (accessToken ch self req), ArgVal (refreshToken ch self req), ArgVal profile, ArgVerified])
          \<in> set (fst (authenticate ch self oauth2 verify req)))"
proof (intro conjI impI)
  assume v: "CallVerify args \<in> set (fst (authenticate ch self oauth2 verify req))"
  then have t: "truthy (accessToken ch self req)"
    by (auto simp: authenticate_def split: if_splits)
  with v have "CallVerify args \<in> set (fst (got (loaded self verify req (accessToken ch self req) (refreshToken ch self req))
      (oauth2 (profileURL self) (accessToken ch self req))))"
    by (auto simp: authenticate_with_token split: prod.splits)
  then obtain r where "CallVerify args \<in> set (fst (loaded self verify req (accessToken ch self req) (refreshToken ch self req) r))"
    by (blast dest: got_events)
  then have "args = verify_args self req (accessToken ch self req) (refreshToken ch self req) (snd r)"
    by (cases r) (auto dest: loaded_verify)
  then show "\<exists>profile. args =
         (if truthy (passReqToCallback self) then [ArgReq req] else [])
           @ [ArgVal (accessToken ch self req), ArgVal (refreshToken ch self req), ArgVal profile, ArgVerified]"
    unfolding verify_args_append by blast
next
  assume a: "truthy (accessToken ch self req) \<and>
        oauth2 (profileURL self) (accessToken ch self req) = (error, body') \<and>
        \<not> truthy error \<and> parse_profile body' = Inr profile"
  have "CallVerify (verify_args self req (accessToken ch self req) (refreshToken ch self req) profile)
      \<in> set (fst (loaded self verify req (accessToken ch self req) (refreshToken ch self req) (JNull, profile)))"
    by (rule loaded_calls_verify) simp
  with a have "CallVerify (verify_args self req (accessToken ch self req) (refreshToken ch self req) profile)
      \<in> set (fst (got (loaded self verify req (accessToken ch self req) (refreshToken ch self req)) (error, body')))"
    by (blast intro: got_first_events)
  with a show "CallVerify ((if truthy (passReqToCallback self) then [ArgReq req] else [])
           @ [ArgVal (accessToken ch self req), ArgVal (refreshToken ch self req), ArgVal profile, ArgVerified])
          \<in> set (fst (authenticate ch self oauth2 verify req))"
    unfolding verify_args_append [symmetric]
    by (auto simp: authenticate_with_token split: prod.splits)
qed


definition pass_req_options :: options where
  "pass_req_options = default_options \<lparr> opt_passReqToCallback := JBool True \<rparr>"

theorem verify_arguments_witness:
  "CallVerify [ArgReq body_request, ArgVal (JString (str ''access_token'')),
               ArgVal (JString (str ''refresh_token'')), ArgVal fake_normalized, ArgVerified]
     \<in> set (fst (authenticate object_chain (YandexTokenStrategy pass_req_options) get_ok verify_accept body_request))
   \<and> CallVerify [ArgVal (JString (str ''access_token'')),
               ArgVal (JString (str ''refresh_token'')), ArgVal fake_normalized, ArgVerified]
     \<in> set (fst (authenticate object_chain (YandexTokenStrategy default_options) get_ok verify_accept body_request))"
proof -
  have p: "passReqToCallback (YandexTokenStrategy pass_req_options) = JBool True"
    "passReqToCallback (YandexTokenStrategy default_options) = JUndefined"
    by (simp_all add: YandexTokenStrategy_def pass_req_options_def default_options_def)
  have a: "accessToken object_chain (YandexTokenStrategy pass_req_options) body_request = JString (str ''access_token'')"
    "accessToken object_chain (YandexTokenStrategy default_options) body_request = JString (str ''access_token'')"
    by (simp_all add: YandexTokenStrategy_def pass_req_options_def default_options_def or_default_def
        accessToken_def body_request_def tokens_def field_of_def js_and_def js_or_def read_def str_def)
  have r: "refreshToken object_chain (YandexTokenStrategy pass_req_options) body_request = JString (str ''refresh_token'')"
    "refreshToken object_chain (YandexTokenStrategy default_options) body_request = JString (str ''refresh_token'')"
    by (simp_all add: YandexTokenStrategy_def pass_req_options_def default_options_def or_default_def
        refreshToken_def body_request_def tokens_def field_of_def js_and_def js_or_def read_def str_def)
  have t: "str ''access_token'' \<noteq> []"
    by (simp add: str_def)
  from verify_arguments [where args = "[ArgReq body_request, ArgVal (JString (str ''access_token'')),
        ArgVal (JString (str ''refresh_token'')), ArgVal fake_normalized, ArgVerified]"
      and ch = object_chain and self = "YandexTokenStrategy pass_req_options" and ?oauth2.0 = get_ok
      and verify = verify_accept and req = body_request and error = JNull
      and body' = fake_profile and profile = fake_normalized]
    verify_arguments [where args = "[ArgVal (JString (str ''access_token'')),
        ArgVal (JString (str ''refresh_token'')), ArgVal fake_normalized, ArgVerified]"
      and ch = object_chain and self = "YandexTokenStrategy default_options" and ?oauth2.0 = get_ok
      and verify = verify_accept and req = body_request and error = JNull
      and body' = fake_profile and profile = fake_normalized]
  show ?thesis
    by (simp add: p a r t get_ok_def parse_profile_fake_profile)
qed

subsection \<open>C2: an inherited property as the token\<close>

definition constructor_options :: options where
  "constructor_options = default_options \<lparr> opt_accessTokenField := Some (str ''constructor'') \<rparr>"

definition empty_body_request :: request where
  "empty_body_request = \<lparr> body = JObject [], query = JUndefined, headers = JUndefined \<rparr>"

lemma truthy_fake_normalized: "truthy fake_normalized"
  by (simp add: fake_normalized_def)

text \<open>
  C2 as the claim states it fails. The strategy is configured with the field name
  \<open>constructor\<close>; the body of the request is the empty object, which holds nothing,
  and there is no query. The read \<open>req.body['constructor']\<close> gives the function
  \<open>Object\<close>, which every plain object inherits: \<open>authenticate\<close> takes it for the token,
  calls the GET and goes on to \<open>success\<close>; \<open>fail\<close> is not called.
\<close>

theorem inherited_token_counterexample:
  "own (body empty_body_request) (accessTokenField (YandexTokenStrategy constructor_options)) = None \<and>
   query empty_body_request = JUndefined \<and>
   authenticate object_chain (YandexTokenStrategy constructor_options) get_ok verify_accept
       empty_body_request =
     ([CallGet (str ''https://login.yandex.ru/info?format=json'') (JFunction 0),
       CallVerify [ArgVal (JFunction 0), ArgVal JUndefined, ArgVal fake_normalized, ArgVerified],
       CallSuccess fake_normalized (JObject [(str ''info'', JString (str ''foo''))])], None)"
proof -
  have s: "accessTokenField (YandexTokenStrategy constructor_options) = str ''constructor''"
    "refreshTokenField (YandexTokenStrategy constructor_options) = str ''refresh_token''"
    "passReqToCallback (YandexTokenStrategy constructor_options) = JUndefined"
    "profileURL (YandexTokenStrategy constructor_options) = str ''https://login.yandex.ru/info?format=json''"
    by (simp_all add: YandexTokenStrategy_def constructor_options_def default_options_def
        or_default_def str_def)
  have a: "accessToken object_chain (YandexTokenStrategy constructor_options) empty_body_request
      = JFunction 0"
    by (simp add: s accessToken_def empty_body_request_def field_of_def js_and_def js_or_def
        read_def object_chain_def Object_prototype_def str_def)
  have r: "refreshToken object_chain (YandexTokenStrategy constructor_options) empty_body_request
      = JUndefined"
    by (simp add: s refreshToken_def empty_body_request_def field_of_def js_and_def js_or_def
        read_def object_chain_def Object_prototype_def str_def)
  have "authenticate object_chain (YandexTokenStrategy constructor_options) get_ok verify_accept
       empty_body_request =
     ([CallGet (str ''https://login.yandex.ru/info?format=json'') (JFunction 0),
       CallVerify [ArgVal (JFunction 0), ArgVal JUndefined, ArgVal fake_normalized, ArgVerified],
       CallSuccess fake_normalized (JObject [(str ''info'', JString (str ''foo''))])], None)"
    by (simp add: authenticate_with_token a r s get_ok_def got_def parse_profile_fake_profile
        loaded_def verify_args_def verify_accept_def profile_arg_def verified_def
        truthy_fake_normalized)
  then show ?thesis
    by (simp add: s empty_body_request_def)
qed

text \<open>
  With the same configuration and the query \<open>{constructor: 'q'}\<close> beside the empty body,
  the token is still the inherited function, not the value of the query.
\<close>

lemma inherited_before_query:
  "accessToken object_chain (YandexTokenStrategy constructor_options)
     \<lparr> body = JObject [], query = JObject [(str ''constructor'', JString (str ''q''))],
       headers = JUndefined \<rparr> = JFunction 0"
  by (simp add: YandexTokenStrategy_def constructor_options_def default_options_def or_default_def
      accessToken_def field_of_def js_and_def js_or_def read_def object_chain_def
      Object_prototype_def str_def)

subsection \<open>C3: the outcome of verification\<close>

text \<open>Verify functions that reject the user, and that report an error.\<close>

definition verify_reject :: verify_fn where
  "verify_reject args =
     \<lparr> calls = [(JNull, JBool False, JObject [(str ''message'', JString (str ''no''))])],
       thrown = None \<rparr>"

definition verify_error :: verify_fn where
  "verify_error args =
     \<lparr> calls = [(JError PlainError [], JUndefined, JUndefined)], thrown = None \<rparr>"

lemma loaded_routes:
  "\<not> truthy err \<Longrightarrow>
   fst (loaded self verify req token refresh (err, profile)) =
     CallVerify (verify_args self req token refresh profile)
       # concat (map verified (calls (verify (verify_args self req token refresh profile))))"
  by (simp add: loaded_def)

lemma verified_cases:
  "verified = (\<lambda>(e, user, info).
      if truthy e then [CallError e]
      else if \<not> truthy user then [CallFail info]
      else [CallSuccess user info])"
  by (rule ext) (simp add: verified_def split: prod.splits)

text \<open>
  C3. In the callback of lines 62 to 77, after the call of the verify function, every
  outcome \<open>(e, user, info)\<close> that verify delivers through \<open>done\<close> becomes one call of
  the strategy, in the order of delivery: \<open>error(e)\<close> when \<open>e\<close> is present (truthy, the
  test the code makes: an error object always is); \<open>fail(info)\<close> when \<open>e\<close> is absent and
  \<open>user\<close> is falsy; otherwise \<open>success(user, info)\<close>, with the same \<open>user\<close> and \<open>info\<close>.
  So an attempt whose fetch and normalization succeed, and whose verify function
  delivers one outcome and returns, consists of the GET, the call of verify and that one
  call.
\<close>

theorem verified_routes:
  "(\<not> truthy err \<longrightarrow>
      fst (loaded self verify req token refresh (err, profile)) =
        CallVerify (verify_args self req token refresh profile)
          # concat (map (\<lambda>(e, user, info).
                if truthy e then [CallError e]
                else if \<not> truthy user then [CallFail info]
                else [CallSuccess user info])
              (calls (verify (verify_args self req token refresh profile))))) \<and>
   (truthy (accessToken ch self req) \<and>
    oauth2 (profileURL self) (accessToken ch self req) = (error, body') \<and>
    \<not> truthy error \<and> parse_profile body' = Inr p \<and>
    verify (verify_args self req (accessToken ch self req) (refreshToken ch self req) p)
      = \<lparr> calls = [(e', user', info')], thrown = None \<rparr> \<longrightarrow>
    authenticate ch self oauth2 verify req =
      ([CallGet (profileURL self) (accessToken ch self req),
        CallVerify (verify_args self req (accessToken ch self req) (refreshToken ch self req) p)]
       @ (if truthy e' then [CallError e']
          else if \<not> truthy user' then [CallFail info']
          else [CallSuccess user' info']), None))"
proof (intro conjI impI)
  assume "\<not> truthy err"
  then show "fst (loaded self verify req token refresh (err, profile)) =
        CallVerify (verify_args self req token refresh profile)
          # concat (map (\<lambda>(e, user, info).
                if truthy e then [CallError e]
                else if \<not> truthy user then [CallFail info]
                else [CallSuccess user info])
              (calls (verify (verify_args self req token refresh profile))))"
    unfolding verified_cases [symmetric] by (rule loaded_routes)
next
  assume a: "truthy (accessToken ch self req) \<and>
    oauth2 (profileURL self) (accessToken ch self req) = (error, body') \<and>
    \<not> truthy error \<and> parse_profile body' = Inr p \<and>
    verify (verify_args self req (accessToken ch self req) (refreshToken ch self req) p)
      = \<lparr> calls = [(e', user', info')], thrown = None \<rparr>"
  then have l: "loaded self verify req (accessToken ch self req) (refreshToken ch self req) (JNull, p)
      = (CallVerify (verify_args self req (accessToken ch self req) (refreshToken ch self req) p)
           # verified (e', user', info'), None)"
    by (simp add: loaded_def)
  from a have "got (loaded self verify req (accessToken ch self req) (refreshToken ch self req))
      (error, body')
      = (CallVerify (verify_args self req (accessToken ch self req) (refreshToken ch self req) p)
           # verified (e', user', info'), None)"
    by (simp add: got_def l)
  with a show "authenticate ch self oauth2 verify req =
      ([CallGet (profileURL self) (accessToken ch self req),
        CallVerify (verify_args self req (accessToken ch self req) (refreshToken ch self req) p)]
       @ (if truthy e' then [CallError e']
          else if \<not> truthy user' then [CallFail info']
          else [CallSuccess user' info']), None)"
    by (simp add: authenticate_with_token verified_def)
qed

theorem verified_routes_witness:
  "authenticate object_chain (YandexTokenStrategy default_options) get_ok verify_accept body_request =
     ([CallGet (str ''https://login.yandex.ru/info?format=json'') (JString (str ''access_token'')),
       CallVerify [ArgVal (JString (str ''access_token'')), ArgVal (JString (str ''refresh_token'')),
                   ArgVal fake_normalized, ArgVerified],
       CallSuccess fake_normalized (JObject [(str ''info'', JString (str ''foo''))])], None) \<and>
   authenticate object_chain (YandexTokenStrategy default_options) get_ok verify_reject body_request =
     ([CallGet (str ''https://login.yandex.ru/info?format=json'') (JString (str ''access_token'')),
       CallVerify [ArgVal (JString (str ''access_token'')), ArgVal (JString (str ''refresh_token'')),
                   ArgVal fake_normalized, ArgVerified],
       CallFail (JObject [(str ''message'', JString (str ''no''))])], None) \<and>
   authenticate object_chain (YandexTokenStrategy default_options) get_ok verify_error body_request =
     ([CallGet (str ''https://login.yandex.ru/info?format=json'') (JString (str ''access_token'')),
       CallVerify [ArgVal (JString (str ''access_token'')), ArgVal (JString (str ''refresh_token'')),
                   ArgVal fake_normalized, ArgVerified],
       CallError (JError PlainError [])], None) \<and>
   fst (loaded (YandexTokenStrategy default_options) verify_reject body_request
          (JString (str ''access_token'')) (JString (str ''refresh_token'')) (JNull, fake_normalized)) =
     [CallVerify [ArgVal (JString (str ''access_token'')), ArgVal (JString (str ''refresh_token'')),
                  ArgVal fake_normalized, ArgVerified],
      CallFail (JObject [(str ''message'', JString (str ''no''))])]"
proof -
  have t: "str ''access_token'' \<noteq> []"
    by (simp add: str_def)
  have p: "passReqToCallback (YandexTokenStrategy default_options) = JUndefined"
    "profileURL (YandexTokenStrategy default_options) = str ''https://login.yandex.ru/info?format=json''"
    by (simp_all add: default_strategy)
  have va: "verify_args (YandexTokenStrategy default_options) body_request
      (JString (str ''access_token'')) (JString (str ''refresh_token'')) fake_normalized =
      [ArgVal (JString (str ''access_token'')), ArgVal (JString (str ''refresh_token'')),
       ArgVal fake_normalized, ArgVerified]"
    by (simp add: verify_args_def p)
  have pa: "profile_arg [ArgVal (JString (str ''access_token'')), ArgVal (JString (str ''refresh_token'')),
       ArgVal fake_normalized, ArgVerified] = fake_normalized"
    by (simp add: profile_arg_def)
  from verified_routes [where ch = object_chain and self = "YandexTokenStrategy default_options"
      and ?oauth2.0 = get_ok and verify = verify_accept and req = body_request and error = JNull
      and body' = fake_profile and p = fake_normalized and e' = JNull and user' = fake_normalized
      and info' = "JObject [(str ''info'', JString (str ''foo''))]" and err = JNull
      and token = "JString (str ''access_token'')" and refresh = "JString (str ''refresh_token'')"
      and profile = fake_normalized]
    verified_routes [where ch = object_chain and self = "YandexTokenStrategy default_options"
      and ?oauth2.0 = get_ok and verify = verify_reject and req = body_request and error = JNull
      and body' = fake_profile and p = fake_normalized and e' = JNull and user' = "JBool False"
      and info' = "JObject [(str ''message'', JString (str ''no''))]" and err = JNull
      and token = "JString (str ''access_token'')" and refresh = "JString (str ''refresh_token'')"
      and profile = fake_normalized]
    verified_routes [where ch = object_chain and self = "YandexTokenStrategy default_options"
      and ?oauth2.0 = get_ok and verify = verify_error and req = body_request and error = JNull
      and body' = fake_profile and p = fake_normalized and e' = "JError PlainError []"
      and user' = JUndefined and info' = JUndefined and err = JNull
      and token = "JString (str ''access_token'')" and refresh = "JString (str ''refresh_token'')"
      and profile = fake_normalized]
  show ?thesis
    by (simp add: default_accessToken default_refreshToken t p va pa get_ok_def
        parse_profile_fake_profile verify_accept_def verify_reject_def verify_error_def
        truthy_fake_normalized)
qed

subsection \<open>C9: what a profile always has\<close>

text \<open>The names of the own properties of an object.\<close>

fun own_keys :: "jsval \<Rightarrow> jsstring list" where
  "own_keys (JObject kvs) = map fst kvs"
| "own_keys (JError c kvs) = map fst kvs"
| "own_keys v = []"

lemma get_Inr: "get v k = Inr x \<Longrightarrow> x = property v k \<and> v \<noteq> JUndefined \<and> v \<noteq> JNull"
  by (auto simp: get_def split: if_splits)

lemma parse_profile_Inr:
  assumes "parse_profile body' = Inr p"
  obtains json familyName givenName where
    "JSON_parse body' = Inr json" "json \<noteq> JUndefined" "json \<noteq> JNull"
    "name_part (property json (str ''real_name'')) 0 = Inr familyName"
    "name_part (property json (str ''real_name'')) 1 = Inr givenName"
    "p = JObject
          [(str ''provider'', JString (str ''yandex'')),
           (str ''id'', property json (str ''id'')),
           (str ''displayName'', property json (str ''display_name'')),
           (str ''name'', JObject [(str ''familyName'', familyName), (str ''givenName'', givenName)]),
           (str ''emails'', JArray [JObject [(str ''value'', property json (str ''default_email''))]]),
           (str ''photos'', JArray []),
           (str ''_raw'', JString body'),
           (str ''_json'', json)]"
  using assms unfolding parse_profile_def
  by (auto split: sum.splits dest!: get_Inr)

definition empty_normalized :: jsval where
  "empty_normalized =
     JObject [(str ''provider'', JString (str ''yandex'')),
              (str ''id'', JUndefined),
              (str ''displayName'', JUndefined),
              (str ''name'', JObject [(str ''familyName'', JString []), (str ''givenName'', JString [])]),
              (str ''emails'', JArray [JObject [(str ''value'', JUndefined)]]),
              (str ''photos'', JArray []),
              (str ''_raw'', JString (str ''{}'')),
              (str ''_json'', JObject [])]"

lemma JSON_parse_empty_object: "JSON_parse (str ''{}'') = Inr (JObject [])"
  by (simp add: JSON_parse_def str_def is_ws_def is_digit_def)

lemma parse_profile_empty_object: "parse_profile (str ''{}'') = Inr empty_normalized"
  unfolding parse_profile_def JSON_parse_empty_object
  by (simp add: empty_normalized_def get_def name_part_def)

text \<open>
  C9 as the claim states it fails: the body \<open>{}\<close> is normalized without error, and
  the profile's \<open>id\<close> is \<open>undefined\<close>. Nothing in the code checks the document for
  an \<open>id\<close>.
\<close>

theorem missing_id_counterexample:
  "parse_profile (str ''{}'') = Inr empty_normalized \<and>
   property empty_normalized (str ''id'') = JUndefined"
  by (simp add: parse_profile_empty_object) (simp add: empty_normalized_def str_def)

text \<open>
  C9, as the code has it. When normalization succeeds, the body parsed as JSON; the
  profile has the properties \<open>provider\<close> and \<open>id\<close>; \<open>provider\<close> is "yandex"; and \<open>id\<close>
  is the \<open>id\<close> of the parsed document, \<open>undefined\<close> when the document has none. A
  body that is not valid JSON makes normalization fail with the parse error: there is
  no profile.
\<close>

theorem normalized_id_provider:
  "(parse_profile body' = Inr p \<longrightarrow>
      (\<exists>json. JSON_parse body' = Inr json \<and>
         property p (str ''provider'') = JString (str ''yandex'') \<and>
         property p (str ''id'') = property json (str ''id'') \<and>
         str ''provider'' \<in> set (own_keys p) \<and> str ''id'' \<in> set (own_keys p))) \<and>
   (JSON_parse body' = Inl e \<longrightarrow> parse_profile body' = Inl e)"
proof (intro conjI impI)
  assume "parse_profile body' = Inr p"
  then obtain json familyName givenName where j: "JSON_parse body' = Inr json"
    and p: "p = JObject
          [(str ''provider'', JString (str ''yandex'')),
           (str ''id'', property json (str ''id'')),
           (str ''displayName'', property json (str ''display_name'')),
           (str ''name'', JObject [(str ''familyName'', familyName), (str ''givenName'', givenName)]),
           (str ''emails'', JArray [JObject [(str ''value'', property json (str ''default_email''))]]),
           (str ''photos'', JArray []),
           (str ''_raw'', JString body'),
           (str ''_json'', json)]"
    by (rule parse_profile_Inr)
  have "property p (str ''provider'') = JString (str ''yandex'')"
    by (simp add: p)
  moreover have "str ''provider'' \<noteq> str ''id''"
    by (simp add: str_def)
  then have "property p (str ''id'') = property json (str ''id'')"
    by (simp add: p)
  moreover have "str ''provider'' \<in> set (own_keys p)" "str ''id'' \<in> set (own_keys p)"
    by (simp_all add: p)
  ultimately show "\<exists>json. JSON_parse body' = Inr json \<and>
         property p (str ''provider'') = JString (str ''yandex'') \<and>
         property p (str ''id'') = property json (str ''id'') \<and>
         str ''provider'' \<in> set (own_keys p) \<and> str ''id'' \<in> set (own_keys p)"
    using j by blast
next
  assume "JSON_parse body' = Inl e"
  then show "parse_profile body' = Inl e"
    by (rule parse_profile_syntax_error)
qed


theorem normalized_id_provider_witness:
  "property fake_normalized (str ''provider'') = JString (str ''yandex'') \<and>
   property fake_normalized (str ''id'') = JString (str ''00000000'') \<and>
   str ''id'' \<in> set (own_keys fake_normalized) \<and>
   parse_profile (str ''not a JSON'') = Inl (JError SyntaxError [])"
  using normalized_id_provider [of fake_profile fake_normalized "JError SyntaxError []"]
    normalized_id_provider [of "str ''not a JSON''" fake_normalized "JError SyntaxError []"]
  by (simp add: parse_profile_fake_profile JSON_parse_fake_profile JSON_parse_garbage)
    (simp add: fake_json_def str_def)


subsection \<open>C10: the two parts of the name\<close>

lemma split_on_nonempty: "split_on sep s \<noteq> []"
  by (cases s) (auto split: list.splits)

lemma split_on_no_sep: "sep \<notin> set s \<Longrightarrow> split_on sep s = [s]"
  by (induction s) auto

lemma split_on_head_other:
  "c \<noteq> sep \<Longrightarrow> \<exists>p ps. split_on sep (c # cs) = (c # p) # ps"
  by (cases "split_on sep cs") (auto simp: split_on_nonempty)

lemma name_part_no_space:
  assumes "s \<noteq> []" and "0x20 \<notin> set s"
  shows "name_part (JString s) 0 = Inr (JString s)" and "name_part (JString s) (Suc 0) = Inr JUndefined"
  using assms by (simp_all add: name_part_def js_split_def index_def split_on_no_sep)

lemma name_part_falsy: "\<not> truthy v \<Longrightarrow> name_part v i = Inr (JString [])"
  by (simp add: name_part_def)

lemma name_part_string:
  "truthy v \<Longrightarrow> name_part v i = Inr a \<Longrightarrow> \<exists>c cs. v = JString (c # cs)"
  by (cases v) (auto simp: name_part_def neq_Nil_conv)

lemma name_parts_other_first:
  "c \<noteq> 0x20 \<Longrightarrow> name_part (JString (c # cs)) 0 \<noteq> Inr (JString [])"
  using split_on_head_other [of c "0x20" cs]
  by (auto simp: name_part_def js_split_def index_def)

lemma name_parts_space_only: 
  "name_part (JString [0x20]) 0 = Inr (JString [])" "name_part (JString [0x20]) (Suc 0) = Inr (JString [])"
  by (simp_all add: name_part_def js_split_def index_def)

lemma name_parts_two_spaces: 
  "name_part (JString (0x20 # 0x20 # r)) 0 = Inr (JString [])"
  "name_part (JString (0x20 # 0x20 # r)) (Suc 0) = Inr (JString [])"
  by (simp_all add: name_part_def js_split_def index_def)

lemma name_parts_space_other:
  "c \<noteq> 0x20 \<Longrightarrow> name_part (JString (0x20 # c # r)) (Suc 0) \<noteq> Inr (JString [])"
  using split_on_head_other [of c "0x20" r]
  by (auto simp: name_part_def js_split_def index_def)

lemma name_parts_both_empty:
  assumes "name_part v 0 = Inr a" and "name_part v 1 = Inr b"
  shows "(a = JString [] \<and> b = JString []) =
         (\<not> truthy v \<or> v = JString [0x20] \<or> (\<exists>r. v = JString (0x20 # 0x20 # r)))"
proof (cases "truthy v")
  case False
  with assms show ?thesis by (simp add: name_part_falsy)
next
  case True
  with assms(1) obtain c cs where v: "v = JString (c # cs)"
    by (blast dest: name_part_string)
  show ?thesis
  proof (cases "c = 0x20")
    case False
    with assms(1) v have "a \<noteq> JString []"
      using name_parts_other_first [of c cs] by auto
    with True v False show ?thesis by simp
  next
    case c: True
    show ?thesis
    proof (cases cs)
      case Nil
      with assms v c show ?thesis by (simp add: name_parts_space_only)
    next
      case (Cons d r)
      show ?thesis
      proof (cases "d = 0x20")
        case True
        with assms v c Cons show ?thesis by (simp add: name_parts_two_spaces)
      next
        case False
        with assms(2) v c Cons have "b \<noteq> JString []"
          using name_parts_space_other [of d r] by auto
        with v c Cons False show ?thesis by simp
      qed
    qed
  qed
qed

lemma str_name_keys: "str ''familyName'' \<noteq> str ''givenName''"
  by (simp add: str_def)

lemma profile_name_parts:
  assumes "p = JObject
          [(str ''provider'', pv), (str ''id'', iv), (str ''displayName'', dv),
           (str ''name'', JObject [(str ''familyName'', familyName), (str ''givenName'', givenName)]),
           (str ''emails'', ev), (str ''photos'', phv), (str ''_raw'', rv), (str ''_json'', jv)]"
  shows "property (property p (str ''name'')) (str ''familyName'') = familyName"
    and "property (property p (str ''name'')) (str ''givenName'') = givenName"
proof -
  have n: "property p (str ''name'') = JObject [(str ''familyName'', familyName), (str ''givenName'', givenName)]"
    unfolding assms by (simp add: str_def)
  show "property (property p (str ''name'')) (str ''familyName'') = familyName"
    unfolding n by simp
  show "property (property p (str ''name'')) (str ''givenName'') = givenName"
    unfolding n by (simp add: str_name_keys)
qed

lemma parse_profile_name:
  assumes "JSON_parse body' = Inr json"
    and "json \<noteq> JUndefined" and "json \<noteq> JNull"
    and "name_part (property json (str ''real_name'')) 0 = Inr familyName"
    and "name_part (property json (str ''real_name'')) 1 = Inr givenName"
  shows "parse_profile body' = Inr (JObject
          [(str ''provider'', JString (str ''yandex'')),
           (str ''id'', property json (str ''id'')),
           (str ''displayName'', property json (str ''display_name'')),
           (str ''name'', JObject [(str ''familyName'', familyName), (str ''givenName'', givenName)]),
           (str ''emails'', JArray [JObject [(str ''value'', property json (str ''default_email''))]]),
           (str ''photos'', JArray []),
           (str ''_raw'', JString body'),
           (str ''_json'', json)])"
  using assms by (simp add: parse_profile_def get_def)

text \<open>
  C10, as the code has it. When the \<open>real_name\<close> of the document is a non-empty string
  without a space, normalization succeeds, \<open>name.familyName\<close> is the whole string and
  \<open>name.givenName\<close> is \<open>undefined\<close>. In a normalized profile both parts are the empty
  string exactly when \<open>real_name\<close> is falsy (absent, \<open>null\<close>, \<open>false\<close>, zero or the
  empty string), or is a single space, or begins with two spaces.
\<close>

theorem name_parts:
  "(JSON_parse body' = Inr json \<and> property json (str ''real_name'') = JString s \<and>
      s \<noteq> [] \<and> 0x20 \<notin> set s \<longrightarrow>
      (\<exists>p. parse_profile body' = Inr p \<and>
         property (property p (str ''name'')) (str ''familyName'') = JString s \<and>
         property (property p (str ''name'')) (str ''givenName'') = JUndefined)) \<and>
   (JSON_parse body' = Inr json \<and> parse_profile body' = Inr p \<longrightarrow>
      (property (property p (str ''name'')) (str ''familyName'') = JString [] \<and>
       property (property p (str ''name'')) (str ''givenName'') = JString [])
      = (\<not> truthy (property json (str ''real_name'')) \<or>
         property json (str ''real_name'') = JString [0x20] \<or>
         (\<exists>r. property json (str ''real_name'') = JString (0x20 # 0x20 # r))))"
proof (intro conjI impI)
  assume a: "JSON_parse body' = Inr json \<and> property json (str ''real_name'') = JString s \<and>
      s \<noteq> [] \<and> 0x20 \<notin> set s"
  then have nn: "json \<noteq> JUndefined" "json \<noteq> JNull"
    by auto
  from a have f: "name_part (property json (str ''real_name'')) 0 = Inr (JString s)"
    and g: "name_part (property json (str ''real_name'')) 1 = Inr JUndefined"
    by (simp_all add: name_part_no_space)
  from a have j: "JSON_parse body' = Inr json" by simp
  note pp = parse_profile_name [OF j nn f g]
  show "\<exists>p. parse_profile body' = Inr p \<and>
         property (property p (str ''name'')) (str ''familyName'') = JString s \<and>
         property (property p (str ''name'')) (str ''givenName'') = JUndefined"
    using pp profile_name_parts [OF refl, of _ _ _ "JString s" JUndefined] by blast
next
  assume a: "JSON_parse body' = Inr json \<and> parse_profile body' = Inr p"
  then have "parse_profile body' = Inr p" by simp
  then obtain json' familyName givenName where j: "JSON_parse body' = Inr json'"
    and f: "name_part (property json' (str ''real_name'')) 0 = Inr familyName"
    and g: "name_part (property json' (str ''real_name'')) 1 = Inr givenName"
    and p: "p = JObject
          [(str ''provider'', JString (str ''yandex'')),
           (str ''id'', property json' (str ''id'')),
           (str ''displayName'', property json' (str ''display_name'')),
           (str ''name'', JObject [(str ''familyName'', familyName), (str ''givenName'', givenName)]),
           (str ''emails'', JArray [JObject [(str ''value'', property json' (str ''default_email''))]]),
           (str ''photos'', JArray []),
           (str ''_raw'', JString body'),
           (str ''_json'', json')]"
    by (rule parse_profile_Inr)
  from a j have e: "json' = json" by simp
  show "(property (property p (str ''name'')) (str ''familyName'') = JString [] \<and>
       property (property p (str ''name'')) (str ''givenName'') = JString [])
      = (\<not> truthy (property json (str ''real_name'')) \<or>
         property json (str ''real_name'') = JString [0x20] \<or>
         (\<exists>r. property json (str ''real_name'') = JString (0x20 # 0x20 # r)))"
    unfolding profile_name_parts [OF p]
    using name_parts_both_empty [OF f g] unfolding e .
qed


definition blank_name_body :: jsstring where
  "blank_name_body = str ''{\"real_name\":\"\"}''"

definition blank_name_normalized :: jsval where
  "blank_name_normalized =
     JObject [(str ''provider'', JString (str ''yandex'')),
              (str ''id'', JUndefined),
              (str ''displayName'', JUndefined),
              (str ''name'', JObject [(str ''familyName'', JString []), (str ''givenName'', JString [])]),
              (str ''emails'', JArray [JObject [(str ''value'', JUndefined)]]),
              (str ''photos'', JArray []),
              (str ''_raw'', JString blank_name_body),
              (str ''_json'', JObject [(str ''real_name'', JString [])])]"

lemma JSON_parse_blank_name:
  "JSON_parse blank_name_body = Inr (JObject [(str ''real_name'', JString [])])"
  by (simp add: JSON_parse_def blank_name_body_def str_def is_ws_def is_digit_def consume_def
      unescape_def)

lemma parse_profile_blank_name: "parse_profile blank_name_body = Inr blank_name_normalized"
  unfolding parse_profile_def JSON_parse_blank_name
  by (simp add: blank_name_normalized_def get_def name_part_def str_def)

text \<open>
  C10 as the claim states it fails in its last part: in the document
  \<open>{"real_name":""}\<close> the field is there, and both parts of the name are the empty
  string.
\<close>

theorem blank_name_counterexample:
  "JSON_parse blank_name_body = Inr (JObject [(str ''real_name'', JString [])]) \<and>
   str ''real_name'' \<in> set (own_keys (JObject [(str ''real_name'', JString [])])) \<and>
   parse_profile blank_name_body = Inr blank_name_normalized \<and>
   property (property blank_name_normalized (str ''name'')) (str ''familyName'') = JString [] \<and>
   property (property blank_name_normalized (str ''name'')) (str ''givenName'') = JString []"
  by (simp add: JSON_parse_blank_name parse_profile_blank_name)
    (simp add: blank_name_normalized_def str_def)

definition single_name_body :: jsstring where
  "single_name_body = str ''{\"real_name\":\"Eugene\"}''"

lemma JSON_parse_single_name:
  "JSON_parse single_name_body = Inr (JObject [(str ''real_name'', JString (str ''Eugene''))])"
  by (simp add: JSON_parse_def single_name_body_def str_def is_ws_def is_digit_def consume_def)

theorem name_parts_witness:
  "(\<exists>p. parse_profile single_name_body = Inr p \<and>
      property (property p (str ''name'')) (str ''familyName'') = JString (str ''Eugene'') \<and>
      property (property p (str ''name'')) (str ''givenName'') = JUndefined) \<and>
   \<not> (property (property fake_normalized (str ''name'')) (str ''familyName'') = JString [] \<and>
      property (property fake_normalized (str ''name'')) (str ''givenName'') = JString []) \<and>
   (property (property empty_normalized (str ''name'')) (str ''familyName'') = JString [] \<and>
    property (property empty_normalized (str ''name'')) (str ''givenName'') = JString [])"
proof -
  have s: "property (JObject [(str ''real_name'', JString (str ''Eugene''))]) (str ''real_name'')
      = JString (str ''Eugene'')"
    by simp
  have e: "str ''Eugene'' \<noteq> []" "0x20 \<notin> set (str ''Eugene'')"
    by (simp_all add: str_def)
  have f: "truthy (property fake_json (str ''real_name''))"
    "property fake_json (str ''real_name'') \<noteq> JString [0x20]"
    "\<And>r. property fake_json (str ''real_name'') \<noteq> JString (0x20 # 0x20 # r)"
    by (simp_all add: fake_json_def str_def)
  have u: "\<not> truthy (property (JObject []) (str ''real_name''))"
    by simp
  from name_parts [of single_name_body "JObject [(str ''real_name'', JString (str ''Eugene''))]"
      "str ''Eugene''" fake_normalized]
    name_parts [of fake_profile fake_json "[]" fake_normalized]
    name_parts [of "str ''{}''" "JObject []" "[]" empty_normalized]
  show ?thesis
    unfolding JSON_parse_single_name JSON_parse_fake_profile parse_profile_fake_profile
      JSON_parse_empty_object parse_profile_empty_object
    using s e f u by simp
qed

subsection \<open>C1: one completion for each attempt\<close>

text \<open>
  When the verify function calls \<open>verified\<close> once and returns normally, every attempt
  ends with exactly one call of \<open>success\<close>, \<open>fail\<close> or \<open>error\<close>.
\<close>

lemma verified_terminal: "filter terminal (verified r) = verified r"
  by (cases r) (simp add: verified_def terminal_def)

lemma verified_length: "length (verified r) = 1"
  by (cases r) (simp add: verified_def)

lemma loaded_once:
  assumes "length (calls (verify (verify_args self req token refresh (snd r)))) = 1"
  shows "length (filter terminal (fst (loaded self verify req token refresh r))) = 1"
proof (cases r)
  case (Pair e p)
  from assms Pair obtain x where "calls (verify (verify_args self req token refresh p)) = [x]"
    by (auto simp: length_Suc_conv)
  with Pair show ?thesis
    by (simp add: loaded_def terminal_def verified_terminal verified_length)
qed

lemma got_normal:
  assumes "\<And>r. snd (done r) = None"
  shows "\<exists>r. got done answer = done r"
proof (cases answer)
  case (Pair error body')
  show ?thesis
  proof (cases "parse_profile body'")
    case (Inl e)
    with Pair show ?thesis by (auto simp: got_def)
  next
    case (Inr profile)
    obtain evs x where d: "done (JNull, profile) = (evs, x)"
      by (cases "done (JNull, profile)")
    with assms [of "(JNull, profile)"] have "x = None"
      by simp
    with d have "got done (error, body') = done (JNull, profile)" if "\<not> truthy error"
      using that Inr by (simp add: got_def)
    with Pair show ?thesis by (cases "truthy error") (auto simp: got_def)
  qed
qed

lemma authenticate_completes_once:
  assumes once: "\<And>args. length (calls (verify args)) = 1"
    and normal: "\<And>args. thrown (verify args) = None"
  shows "length (filter terminal (fst (authenticate ch self oauth2 verify req))) = 1"
proof (cases "truthy (accessToken ch self req)")
  case False
  then show ?thesis by (simp add: authenticate_def terminal_def)
next
  case True
  have "snd (loaded self verify req (accessToken ch self req) (refreshToken ch self req) r) = None" for r
    by (cases r) (simp add: loaded_def normal)
  then obtain r where "got (loaded self verify req (accessToken ch self req) (refreshToken ch self req))
      (oauth2 (profileURL self) (accessToken ch self req))
    = loaded self verify req (accessToken ch self req) (refreshToken ch self req) r"
    using got_normal by blast
  with True have "fst (authenticate ch self oauth2 verify req) =
      CallGet (profileURL self) (accessToken ch self req)
        # fst (loaded self verify req (accessToken ch self req) (refreshToken ch self req) r)"
    by (simp add: authenticate_with_token split: prod.splits)
  moreover have "\<not> terminal (CallGet (profileURL self) (accessToken ch self req))"
    by (simp add: terminal_def)
  ultimately show ?thesis
    by (simp add: loaded_once once)
qed

text \<open>
  An application's verify function that calls \<open>verified(null, profile, {info: 'foo'})\<close>
  once and then throws (as it does when the \<open>success\<close> it reaches that way throws).
\<close>

definition boom :: jsval where
  "boom = JError PlainError [(str ''message'', JString (str ''boom''))]"

definition verify_throwing :: verify_fn where
  "verify_throwing args =
     \<lparr> calls = [(JNull, profile_arg args, JObject [(str ''info'', JString (str ''foo''))])],
       thrown = Some boom \<rparr>"

text \<open>
  C1. The claim: whenever the verify function calls \<open>done\<close> exactly once, exactly one of
  \<open>success\<close>, \<open>fail\<close> and \<open>error\<close> is called in an attempt. The code at
  \<open>verify_throwing\<close>, which calls \<open>done\<close> exactly once: \<open>success\<close> is called, the
  exception reaches the \<open>catch\<close> of \<open>userProfile\<close> (whose \<open>try\<close> block encloses
  \<open>done(null, profile)\<close>), \<open>done\<close> is called again with the exception, and \<open>error\<close> is
  called: two completions.
\<close>

theorem completion_twice:
  "(\<forall>args. length (calls (verify_throwing args)) = 1) \<and>
   authenticate object_chain (YandexTokenStrategy default_options) get_ok verify_throwing body_request =
     ([CallGet (str ''https://login.yandex.ru/info?format=json'') (JString (str ''access_token'')),
       CallVerify [ArgVal (JString (str ''access_token'')), ArgVal (JString (str ''refresh_token'')),
                   ArgVal fake_normalized, ArgVerified],
       CallSuccess fake_normalized (JObject [(str ''info'', JString (str ''foo''))]),
       CallError boom], None) \<and>
   filter terminal (fst (authenticate object_chain (YandexTokenStrategy default_options) get_ok verify_throwing body_request)) =
     [CallSuccess fake_normalized (JObject [(str ''info'', JString (str ''foo''))]), CallError boom]"
proof -
  have t: "str ''access_token'' \<noteq> []"
    by (simp add: str_def)
  have b: "truthy boom"
    by (simp add: boom_def)
  have p: "passReqToCallback (YandexTokenStrategy default_options) = JUndefined"
    "profileURL (YandexTokenStrategy default_options) = str ''https://login.yandex.ru/info?format=json''"
    by (simp_all add: default_strategy)
  have a: "authenticate object_chain (YandexTokenStrategy default_options) get_ok verify_throwing body_request =
     ([CallGet (str ''https://login.yandex.ru/info?format=json'') (JString (str ''access_token'')),
       CallVerify [ArgVal (JString (str ''access_token'')), ArgVal (JString (str ''refresh_token'')),
                   ArgVal fake_normalized, ArgVerified],
       CallSuccess fake_normalized (JObject [(str ''info'', JString (str ''foo''))]),
       CallError boom], None)"
    by (simp add: authenticate_with_token default_accessToken default_refreshToken t b p get_ok_def
        got_def parse_profile_fake_profile loaded_def verify_args_def verify_throwing_def
        profile_arg_def verified_def truthy_fake_normalized)
  show ?thesis
    unfolding a by (simp add: verify_throwing_def terminal_def)
qed

subsection \<open>lib/Strategy.js without a token\<close>

text \<open>
  With no token in the body, the query and the headers, the \<open>authenticate\<close> of
  lib/Strategy.js calls \<open>fail\<close> with its fixed message and nothing else.
\<close>

lemma lib_authenticate_without_token:
  assumes "\<not> has_value ch (body req) (str ''access_token'')"
    and "\<not> has_value ch (query req) (str ''access_token'')"
    and "\<not> has_value ch (headers req) (str ''access_token'')"
  shows "lib_authenticate ch self oauth2 verify req =
           ([CallFail (JObject [(str ''message'', JString (str ''You should provide access_token''))])], None)"
proof -
  from assms have "\<not> truthy (lib_accessToken ch req)"
    by (simp add: lib_accessToken_def js_or_def truthy_field_of)
  then show ?thesis
    by (simp add: lib_authenticate_def)
qed

subsection \<open>The scenarios of the unit tests\<close>

text \<open>
  The tests of \<open>authenticate\<close> in test/unit/index.test.js, on the model: with the
  tokens in the body or in the query, the verify function is called with the tokens and
  the profile, and \<open>success\<close> is called once with the profile and \<open>{info: 'foo'}\<close>;
  with \<open>passReqToCallback\<close>, verify gets the request first.
\<close>

lemma authenticate_tokens_in_body:
  "authenticate object_chain (YandexTokenStrategy default_options) get_ok verify_accept body_request =
     ([CallGet (str ''https://login.yandex.ru/info?format=json'') (JString (str ''access_token'')),
       CallVerify [ArgVal (JString (str ''access_token'')), ArgVal (JString (str ''refresh_token'')),
                   ArgVal fake_normalized, ArgVerified],
       CallSuccess fake_normalized (JObject [(str ''info'', JString (str ''foo''))])], None)"
proof -
  have t: "str ''access_token'' \<noteq> []"
    by (simp add: str_def)
  have p: "passReqToCallback (YandexTokenStrategy default_options) = JUndefined"
    "profileURL (YandexTokenStrategy default_options) = str ''https://login.yandex.ru/info?format=json''"
    by (simp_all add: default_strategy)
  show ?thesis
    by (simp add: authenticate_with_token default_accessToken default_refreshToken t p get_ok_def
        got_def parse_profile_fake_profile loaded_def verify_args_def verify_accept_def
        profile_arg_def verified_def truthy_fake_normalized)
qed

lemma authenticate_tokens_in_query:
  "authenticate object_chain (YandexTokenStrategy default_options) get_ok verify_accept query_request =
     ([CallGet (str ''https://login.yandex.ru/info?format=json'') (JString (str ''access_token'')),
       CallVerify [ArgVal (JString (str ''access_token'')), ArgVal (JString (str ''refresh_token'')),
                   ArgVal fake_normalized, ArgVerified],
       CallSuccess fake_normalized (JObject [(str ''info'', JString (str ''foo''))])], None)"
proof -
  have t: "str ''access_token'' \<noteq> []"
    by (simp add: str_def)
  have a: "accessToken object_chain (YandexTokenStrategy default_options) query_request = JString (str ''access_token'')"
    by (simp add: default_strategy accessToken_def query_request_def tokens_def field_of_def
        js_and_def js_or_def read_def str_def)
  have r: "refreshToken object_chain (YandexTokenStrategy default_options) query_request = JString (str ''refresh_token'')"
    by (simp add: default_strategy refreshToken_def query_request_def tokens_def field_of_def
        js_and_def js_or_def read_def str_def)
  have p: "passReqToCallback (YandexTokenStrategy default_options) = JUndefined"
    "profileURL (YandexTokenStrategy default_options) = str ''https://login.yandex.ru/info?format=json''"
    by (simp_all add: default_strategy)
  show ?thesis
    by (simp add: authenticate_with_token a r t p get_ok_def
        got_def parse_profile_fake_profile loaded_def verify_args_def verify_accept_def
        profile_arg_def verified_def truthy_fake_normalized)
qed

lemma authenticate_pass_req:
  "authenticate object_chain (YandexTokenStrategy pass_req_options) get_ok verify_accept body_request =
     ([CallGet (str ''https://login.yandex.ru/info?format=json'') (JString (str ''access_token'')),
       CallVerify [ArgReq body_request, ArgVal (JString (str ''access_token'')),
                   ArgVal (JString (str ''refresh_token'')), ArgVal fake_normalized, ArgVerified],
       CallSuccess fake_normalized (JObject [(str ''info'', JString (str ''foo''))])], None)"
proof -
  have t: "str ''access_token'' \<noteq> []"
    by (simp add: str_def)
  have a: "accessToken object_chain (YandexTokenStrategy pass_req_options) body_request = JString (str ''access_token'')"
    by (simp add: YandexTokenStrategy_def pass_req_options_def default_options_def or_default_def
        accessToken_def body_request_def tokens_def field_of_def js_and_def js_or_def read_def str_def)
  have r: "refreshToken object_chain (YandexTokenStrategy pass_req_options) body_request = JString (str ''refresh_token'')"
    by (simp add: YandexTokenStrategy_def pass_req_options_def default_options_def or_default_def
        refreshToken_def body_request_def tokens_def field_of_def js_and_def js_or_def read_def str_def)
  have p: "passReqToCallback (YandexTokenStrategy pass_req_options) = JBool True"
    "profileURL (YandexTokenStrategy pass_req_options) = str ''https://login.yandex.ru/info?format=json''"
    by (simp_all add: YandexTokenStrategy_def pass_req_options_def default_options_def or_default_def)
  show ?thesis
    by (simp add: authenticate_with_token a r t p get_ok_def
        got_def parse_profile_fake_profile loaded_def verify_args_def verify_accept_def
        profile_arg_def verified_def truthy_fake_normalized)
qed

end
